theory Spec2Isabelle
  imports Main "HOL-Library.Word" "HOL-Library.Monad_Syntax"
begin

unbundle bit_operations_syntax

section \<open>Data model of the emulator (src/main.c)\<close>

text \<open>
  The C structs become records with the same field names. Fields of type
  \<^verbatim>\<open>enum Bool\<close> are \<^typ>\<open>bool\<close>; the other enum-typed fields that the code fills
  from register bits hold the enum's integer code: as a word of two or three bits where
  the enum has four or eight values and indexes a table (\<^verbatim>\<open>TimerClock\<close>,
  \<^verbatim>\<open>WaveDuty\<close>, \<^verbatim>\<open>WaveVolume\<close>, \<^verbatim>\<open>NoiseDivisor\<close>, \<^verbatim>\<open>JoypadSelect\<close>), as a
  byte otherwise. The shift amounts \<^verbatim>\<open>sweep.shift\<close> (bits 2-0 of NR10) and
  \<^verbatim>\<open>noise.clock_shift\<close> (bits 7-4 of NR43) are words of three and four bits. Fixed-size arrays are functions from the index. A function of the
  model returns \<^term>\<open>None\<close> where the C program stops (a failed \<^verbatim>\<open>assert\<close>,
  \<^verbatim>\<open>UNREACHABLE\<close>, which calls \<^verbatim>\<open>exit(1)\<close>) or indexes an array out of range.
  Five fields are renamed: \<^verbatim>\<open>size\<close> is \<open>size_bytes\<close>, \<^verbatim>\<open>length\<close> is
  \<open>length_ctr\<close> and \<^verbatim>\<open>VideoRam.map\<close> is \<open>tile_map\<close>, because HOL already uses
  these names, and \<^verbatim>\<open>Obj.y\<close>, \<^verbatim>\<open>Obj.x\<close> are \<open>obj_y\<close>, \<open>obj_x\<close>. The flags
  \<^verbatim>\<open>reg.F.Z\<close>, ... are the fields \<open>Z\<close>, ... of the record \<open>Flags\<close>. A field
  name shared by several structs is written with its record's name, as in
  \<open>LCD.cycles\<close>.
  The frame buffer (an output that the core never reads back) is not part of the state.
\<close>

type_synonym u8 = "8 word"
type_synonym u16 = "16 word"
type_synonym u32 = "32 word"
type_synonym Address = u16
type_synonym MaskedAddress = u16

datatype MemoryMapType =
    MEMORY_MAP_ROM
  | MEMORY_MAP_ROM_BANK_SWITCH
  | MEMORY_MAP_VRAM
  | MEMORY_MAP_EXTERNAL_RAM
  | MEMORY_MAP_WORK_RAM
  | MEMORY_MAP_WORK_RAM_BANK_SWITCH
  | MEMORY_MAP_OAM
  | MEMORY_MAP_UNUSED
  | MEMORY_MAP_IO
  | MEMORY_MAP_APU
  | MEMORY_MAP_WAVE_RAM
  | MEMORY_MAP_HIGH_RAM

datatype BankMode = BANK_MODE_ROM | BANK_MODE_RAM

datatype LCDMode =
    LCD_MODE_HBLANK
  | LCD_MODE_VBLANK
  | LCD_MODE_USING_OAM
  | LCD_MODE_USING_OAM_VRAM

datatype BatteryType = NO_BATTERY | WITH_BATTERY

text \<open>The targets of the function pointers of \<^verbatim>\<open>struct MemoryMap\<close>, set by
  \<^verbatim>\<open>init_memory_map\<close>. The two work-RAM pointers have a single target
  (\<^verbatim>\<open>gb_read_work_ram_bank_switch\<close>, \<^verbatim>\<open>gb_write_work_ram_bank_switch\<close>) and are
  called directly.\<close>

datatype WriteRomFn = ROM_ONLY_WRITE_ROM | MBC1_WRITE_ROM | MBC2_WRITE_ROM | MBC3_WRITE_ROM

datatype ExternalRamFn = DUMMY_EXTERNAL_RAM | GB_EXTERNAL_RAM | MBC2_RAM

record RomData =
  data :: "nat \<Rightarrow> u8"
  size_bytes :: nat

record ExternalRam =
  data :: "nat \<Rightarrow> u8"
  size_bytes :: nat
  battery_type :: BatteryType

record WorkRam =
  data :: "nat \<Rightarrow> u8"
  size_bytes :: nat

record MBC1 =
  byte_2000_3fff :: u8
  byte_4000_5fff :: u8
  bank_mode :: BankMode

record MemoryMap =
  rom_bank :: u8
  ext_ram_bank :: u8
  ext_ram_enabled :: bool
  mbc1 :: MBC1
  external_ram_fn :: ExternalRamFn
  write_rom :: WriteRomFn

record MemoryTypeAddressPair =
  type :: MemoryMapType
  addr :: MaskedAddress

record Flags =
  Z :: bool
  N :: bool
  H :: bool
  C :: bool

record Joypad =
  down :: bool
  up :: bool
  left :: bool
  right :: bool
  start :: bool
  select :: bool
  B :: bool
  A :: bool
  joypad_select :: "2 word"

record Registers =
  A :: u8
  B :: u8
  C :: u8
  D :: u8
  E :: u8
  H :: u8
  L :: u8
  SP :: u16
  PC :: u16
  F :: Flags

record VideoRam =
  tile :: "nat \<Rightarrow> nat \<Rightarrow> u8"
  tile_map :: "nat \<Rightarrow> nat \<Rightarrow> u8"
  data :: "nat \<Rightarrow> u8"

record Palette =
  color :: "nat \<Rightarrow> u8"

record Obj =
  obj_y :: u8
  obj_x :: u8
  tile :: u8
  byte3 :: u8
  priority :: u8
  yflip :: bool
  xflip :: bool
  palette :: u8

record OAM =
  objs :: "nat \<Rightarrow> Obj"
  obp :: "nat \<Rightarrow> Palette"

record Interrupts =
  IME :: bool
  IE :: u8
  IF :: u8
  enable :: bool
  halt :: bool
  halt_DI :: bool

record Timer =
  TIMA :: u8
  TMA :: u8
  clock_select :: "2 word"
  div_counter :: u16
  tima_overflow :: bool
  on :: bool

record Serial =
  transfer_start :: bool
  clock_speed :: bool
  shift_clock :: bool

record Sweep =
  period :: u8
  direction :: u8
  shift :: "3 word"
  frequency :: u16
  timer :: u8
  enabled :: bool
  calculated_subtract :: bool

record Envelope =
  initial_volume :: u8
  direction :: u8
  period :: u8
  volume :: u8
  timer :: u32
  automatic :: bool

record WaveSample =
  time :: u32
  position :: u8
  byte :: u8
  data :: u8

record SquareWave =
  duty :: "2 word"
  sample :: u8
  period :: u32
  position :: u8
  cycles :: u32

record Wave =
  volume :: "2 word"
  ram :: "nat \<Rightarrow> u8"
  sample :: "nat \<Rightarrow> WaveSample"
  period :: u32
  position :: u8
  cycles :: u32
  playing :: bool

record Noise =
  clock_shift :: "4 word"
  lfsr_width :: u8
  divisor :: "3 word"
  sample :: u8
  lfsr :: u16
  period :: u32
  cycles :: u32

record Channel =
  square_wave :: SquareWave
  envelope :: Envelope
  frequency :: u16
  length_ctr :: u16
  length_enabled :: bool
  dac_enabled :: bool
  status :: bool

text \<open>\<^verbatim>\<open>struct SoundBuffer\<close> holds three pointers into a caller-owned array:
  \<open>capacity\<close> is \<^verbatim>\<open>end - data\<close> and \<open>samples\<close> the values between
  \<^verbatim>\<open>data\<close> and \<^verbatim>\<open>position\<close>.\<close>

record SoundBuffer =
  capacity :: nat
  samples :: "u16 list"

record Sound =
  so2_volume :: u8
  so1_volume :: u8
  so2_output :: "nat \<Rightarrow> bool"
  so1_output :: "nat \<Rightarrow> bool"
  enabled :: bool
  sweep :: Sweep
  wave :: Wave
  noise :: Noise
  channel :: "nat \<Rightarrow> Channel"
  frame :: u8
  frame_cycles :: u32
  cycles :: u32
  buffer :: SoundBuffer

record LCDControl =
  display :: bool
  window_tile_map_select :: u8
  window_display :: bool
  bg_tile_data_select :: u8
  bg_tile_map_select :: u8
  obj_size :: u8
  obj_display :: bool
  bg_display :: bool

record LCDStatus =
  y_compare_intr :: bool
  using_oam_intr :: bool
  vblank_intr :: bool
  hblank_intr :: bool
  mode :: LCDMode

record LCD =
  lcdc :: LCDControl
  stat :: LCDStatus
  SCY :: u8
  SCX :: u8
  LY :: u8
  LYC :: u8
  WY :: u8
  WX :: u8
  bgp :: Palette
  cycles :: u32
  frame :: u32
  fake_LY :: u8
  win_y :: u8
  frame_WY :: u8
  new_frame_edge :: bool

record DMA =
  active :: bool
  source :: MemoryTypeAddressPair
  addr_offset :: u8
  cycles :: u32

record EmulatorConfig =
  disable_sound :: "nat \<Rightarrow> bool"
  disable_bg :: bool
  disable_window :: bool
  disable_obj :: bool

record Emulator =
  config :: EmulatorConfig
  rom_data :: RomData
  memory_map :: MemoryMap
  reg :: Registers
  vram :: VideoRam
  external_ram :: ExternalRam
  ram :: WorkRam
  interrupts :: Interrupts
  oam :: OAM
  joypad :: Joypad
  serial :: Serial
  timer :: Timer
  sound :: Sound
  lcd :: LCD
  dma :: DMA
  hram :: "nat \<Rightarrow> u8"
  cycles :: u32

section \<open>Register bit fields\<close>

text \<open>The macros \<^verbatim>\<open>BITS_MASK\<close>, \<^verbatim>\<open>ENCODE\<close> and \<^verbatim>\<open>DECODE\<close>. A field macro such as
  \<^verbatim>\<open>CPU_FLAG_Z(X, OP)\<close> is \<^verbatim>\<open>OP(X, 7, 7)\<close>; the model writes the bit positions at
  each use.\<close>

definition BITS_MASK :: "nat \<Rightarrow> nat \<Rightarrow> 'a::len word" where
  "BITS_MASK hi lo = push_bit (hi - lo + 1) 1 - 1"

definition ENCODE :: "'a::len word \<Rightarrow> nat \<Rightarrow> nat \<Rightarrow> 'a word" where
  "ENCODE v hi lo = push_bit lo (v AND BITS_MASK hi lo)"

definition DECODE :: "'a::len word \<Rightarrow> nat \<Rightarrow> nat \<Rightarrow> 'a word" where
  "DECODE v hi lo = drop_bit lo v AND BITS_MASK hi lo"

text \<open>An \<^verbatim>\<open>enum Bool\<close> read as an integer, and an integer stored into one.\<close>

definition ENCODE_BOOL :: "bool \<Rightarrow> nat \<Rightarrow> u8" where
  "ENCODE_BOOL b n = ENCODE (of_bool b) n n"

definition DECODE_BOOL :: "'a::len word \<Rightarrow> nat \<Rightarrow> bool" where
  "DECODE_BOOL v n = (DECODE v n n \<noteq> 0)"

section \<open>CPU registers\<close>

definition get_f_reg :: "Registers \<Rightarrow> u8" where
  "get_f_reg r =
     ENCODE_BOOL (Flags.Z (F r)) 7 OR ENCODE_BOOL (Flags.N (F r)) 6 OR
     ENCODE_BOOL (Flags.H (F r)) 5 OR ENCODE_BOOL (Flags.C (F r)) 4"

definition get_af_reg :: "Registers \<Rightarrow> u16" where
  "get_af_reg r = push_bit 8 (ucast (Registers.A r)) OR ucast (get_f_reg r)"

definition set_af_reg :: "Registers \<Rightarrow> u16 \<Rightarrow> Registers" where
  "set_af_reg r af =
     r\<lparr>Registers.A := ucast (drop_bit 8 af),
       F := \<lparr>Z = DECODE_BOOL af 7, N = DECODE_BOOL af 6,
              Flags.H = DECODE_BOOL af 5, Flags.C = DECODE_BOOL af 4\<rparr>\<rparr>"

section \<open>C arrays and assertions\<close>

text \<open>\<open>index_array arr n i\<close> is the C expression \<^verbatim>\<open>arr[i]\<close> for an array of \<open>n\<close>
  elements and \<open>store_array arr n i v\<close> the assignment \<^verbatim>\<open>arr[i] = v\<close>; an index out of
  range stops the model. \<open>c_assert\<close> is \<^verbatim>\<open>assert\<close>.\<close>

definition index_array :: "(nat \<Rightarrow> 'a) \<Rightarrow> nat \<Rightarrow> nat \<Rightarrow> 'a option" where
  "index_array arr n i = (if i < n then Some (arr i) else None)"

definition store_array :: "(nat \<Rightarrow> 'a) \<Rightarrow> nat \<Rightarrow> nat \<Rightarrow> 'a \<Rightarrow> (nat \<Rightarrow> 'a) option" where
  "store_array arr n i v = (if i < n then Some (arr(i := v)) else None)"

definition c_assert :: "bool \<Rightarrow> unit option" where
  "c_assert b = (if b then Some () else None)"

definition VIDEO_RAM_SIZE :: nat where "VIDEO_RAM_SIZE = 8192"
definition WORK_RAM_MAX_SIZE :: nat where "WORK_RAM_MAX_SIZE = 32768"
definition EXTERNAL_RAM_MAX_SIZE :: nat where "EXTERNAL_RAM_MAX_SIZE = 32768"
definition WAVE_RAM_SIZE :: nat where "WAVE_RAM_SIZE = 16"
definition HIGH_RAM_SIZE :: nat where "HIGH_RAM_SIZE = 127"
definition OBJ_COUNT :: nat where "OBJ_COUNT = 40"
definition TILE_COUNT :: nat where "TILE_COUNT = 512"
definition INVALID_READ_BYTE :: u8 where "INVALID_READ_BYTE = 0xff"

section \<open>Memory-bank controllers\<close>

definition rom_only_write_rom :: "Emulator \<Rightarrow> MaskedAddress \<Rightarrow> u8 \<Rightarrow> Emulator option" where
  "rom_only_write_rom e ad v = Some e"

definition gb_read_work_ram_bank_switch :: "Emulator \<Rightarrow> MaskedAddress \<Rightarrow> u8 option" where
  "gb_read_work_ram_bank_switch e ad = do {
     c_assert (ad \<le> 0x0fff);
     index_array (WorkRam.data (ram e)) WORK_RAM_MAX_SIZE (0x1000 + unat ad)
   }"

definition gb_write_work_ram_bank_switch ::
    "Emulator \<Rightarrow> MaskedAddress \<Rightarrow> u8 \<Rightarrow> Emulator option" where
  "gb_write_work_ram_bank_switch e ad v = do {
     c_assert (ad \<le> 0x0fff);
     d \<leftarrow> store_array (WorkRam.data (ram e)) WORK_RAM_MAX_SIZE (0x1000 + unat ad) v;
     Some (e\<lparr>ram := (ram e)\<lparr>WorkRam.data := d\<rparr>\<rparr>)
   }"

definition mbc1_write_rom :: "Emulator \<Rightarrow> MaskedAddress \<Rightarrow> u8 \<Rightarrow> Emulator option" where
  "mbc1_write_rom e ad v = do {
     let mm = memory_map e;
     let n = drop_bit 13 ad;
     mm1 \<leftarrow>
       (if n = 0 then Some (mm\<lparr>ext_ram_enabled := (v AND 0xf = 0xa)\<rparr>)
        else if n = 1 then Some (mm\<lparr>mbc1 := (mbc1 mm)\<lparr>byte_2000_3fff := v\<rparr>\<rparr>)
        else if n = 2 then Some (mm\<lparr>mbc1 := (mbc1 mm)\<lparr>byte_4000_5fff := v\<rparr>\<rparr>)
        else if n = 3 then
          Some (mm\<lparr>mbc1 := (mbc1 mm)\<lparr>bank_mode :=
                  (if v AND 1 = 0 then BANK_MODE_ROM else BANK_MODE_RAM)\<rparr>\<rparr>)
        else None);
     let b0 = byte_2000_3fff (mbc1 mm1) AND 0x1f;
     let b1 = (if b0 = 0 then b0 + 1 else b0);
     let mm2 =
       (if bank_mode (mbc1 mm1) = BANK_MODE_ROM
        then mm1\<lparr>rom_bank := b1 OR push_bit 5 (byte_4000_5fff (mbc1 mm1) AND 0x3),
                 ext_ram_bank := 0\<rparr>
        else mm1\<lparr>rom_bank := b1, ext_ram_bank := byte_4000_5fff (mbc1 mm1) AND 0x3\<rparr>);
     Some (e\<lparr>memory_map := mm2\<rparr>)
   }"

definition dummy_read_external_ram :: "Emulator \<Rightarrow> MaskedAddress \<Rightarrow> u8 option" where
  "dummy_read_external_ram e ad = Some 0"

definition dummy_write_external_ram ::
    "Emulator \<Rightarrow> MaskedAddress \<Rightarrow> u8 \<Rightarrow> Emulator option" where
  "dummy_write_external_ram e ad v = Some e"

definition get_external_ram_address :: "Emulator \<Rightarrow> MaskedAddress \<Rightarrow> nat option" where
  "get_external_ram_address e ad = do {
     c_assert (ad \<le> 0x1fff);
     let ram_addr = unat (push_bit 13 (ucast (ext_ram_bank (memory_map e)) :: u32) OR ucast ad);
     Some (if ram_addr < ExternalRam.size_bytes (external_ram e) then ram_addr else 0)
   }"

definition gb_read_external_ram :: "Emulator \<Rightarrow> MaskedAddress \<Rightarrow> u8 option" where
  "gb_read_external_ram e ad =
     (if ext_ram_enabled (memory_map e) then do {
        i \<leftarrow> get_external_ram_address e ad;
        index_array (ExternalRam.data (external_ram e)) EXTERNAL_RAM_MAX_SIZE i
      } else Some INVALID_READ_BYTE)"

definition gb_write_external_ram ::
    "Emulator \<Rightarrow> MaskedAddress \<Rightarrow> u8 \<Rightarrow> Emulator option" where
  "gb_write_external_ram e ad v =
     (if ext_ram_enabled (memory_map e) then do {
        i \<leftarrow> get_external_ram_address e ad;
        d \<leftarrow> store_array (ExternalRam.data (external_ram e)) EXTERNAL_RAM_MAX_SIZE i v;
        Some (e\<lparr>external_ram := (external_ram e)\<lparr>ExternalRam.data := d\<rparr>\<rparr>)
      } else Some e)"

definition mbc2_write_rom :: "Emulator \<Rightarrow> MaskedAddress \<Rightarrow> u8 \<Rightarrow> Emulator option" where
  "mbc2_write_rom e ad v =
     (let n = drop_bit 13 ad in
      if n = 0 then
        (if ad AND 0x100 = 0
         then Some (e\<lparr>memory_map := (memory_map e)\<lparr>ext_ram_enabled := (v AND 0xf = 0xa)\<rparr>\<rparr>)
         else Some e)
      else if n = 1 then
        (if ad AND 0x100 \<noteq> 0
         then Some (e\<lparr>memory_map := (memory_map e)\<lparr>rom_bank := v AND 0xf\<rparr>\<rparr>)
         else Some e)
      else Some e)"

definition mbc2_read_ram :: "Emulator \<Rightarrow> MaskedAddress \<Rightarrow> u8 option" where
  "mbc2_read_ram e ad =
     (if ext_ram_enabled (memory_map e)
      then index_array (ExternalRam.data (external_ram e)) EXTERNAL_RAM_MAX_SIZE
             (unat (ad AND 0x1ff))
      else Some INVALID_READ_BYTE)"

definition mbc2_write_ram :: "Emulator \<Rightarrow> MaskedAddress \<Rightarrow> u8 \<Rightarrow> Emulator option" where
  "mbc2_write_ram e ad v =
     (if ext_ram_enabled (memory_map e) then do {
        d \<leftarrow> store_array (ExternalRam.data (external_ram e)) EXTERNAL_RAM_MAX_SIZE
               (unat (ad AND 0x1ff)) (v AND 0xf);
        Some (e\<lparr>external_ram := (external_ram e)\<lparr>ExternalRam.data := d\<rparr>\<rparr>)
      } else Some e)"

definition mbc3_write_rom :: "Emulator \<Rightarrow> MaskedAddress \<Rightarrow> u8 \<Rightarrow> Emulator option" where
  "mbc3_write_rom e ad v =
     (let n = drop_bit 13 ad in
      if n = 0 then
        Some (e\<lparr>memory_map := (memory_map e)\<lparr>ext_ram_enabled := (v AND 0xf = 0xa)\<rparr>\<rparr>)
      else if n = 1 then
        Some (e\<lparr>memory_map := (memory_map e)\<lparr>rom_bank := v AND 0x7f\<rparr>\<rparr>)
      else if n = 2 then
        Some (e\<lparr>memory_map := (memory_map e)\<lparr>ext_ram_bank := v AND 0x7\<rparr>\<rparr>)
      else Some e)"

text \<open>Calls through the function pointers of \<^verbatim>\<open>e->memory_map\<close>.\<close>

definition call_write_rom :: "Emulator \<Rightarrow> MaskedAddress \<Rightarrow> u8 \<Rightarrow> Emulator option" where
  "call_write_rom e ad v =
     (case write_rom (memory_map e) of
        ROM_ONLY_WRITE_ROM \<Rightarrow> rom_only_write_rom e ad v
      | MBC1_WRITE_ROM \<Rightarrow> mbc1_write_rom e ad v
      | MBC2_WRITE_ROM \<Rightarrow> mbc2_write_rom e ad v
      | MBC3_WRITE_ROM \<Rightarrow> mbc3_write_rom e ad v)"

definition call_read_external_ram :: "Emulator \<Rightarrow> MaskedAddress \<Rightarrow> u8 option" where
  "call_read_external_ram e ad =
     (case external_ram_fn (memory_map e) of
        DUMMY_EXTERNAL_RAM \<Rightarrow> dummy_read_external_ram e ad
      | GB_EXTERNAL_RAM \<Rightarrow> gb_read_external_ram e ad
      | MBC2_RAM \<Rightarrow> mbc2_read_ram e ad)"

definition call_write_external_ram ::
    "Emulator \<Rightarrow> MaskedAddress \<Rightarrow> u8 \<Rightarrow> Emulator option" where
  "call_write_external_ram e ad v =
     (case external_ram_fn (memory_map e) of
        DUMMY_EXTERNAL_RAM \<Rightarrow> dummy_write_external_ram e ad v
      | GB_EXTERNAL_RAM \<Rightarrow> gb_write_external_ram e ad v
      | MBC2_RAM \<Rightarrow> mbc2_write_ram e ad v)"

section \<open>Address decoding\<close>

definition map_address :: "Address \<Rightarrow> MemoryTypeAddressPair" where
  "map_address a =
     (let n = drop_bit 12 a in
      if n = 0x0 \<or> n = 0x1 \<or> n = 0x2 \<or> n = 0x3 then
        \<lparr>type = MEMORY_MAP_ROM, addr = a AND 0x3fff\<rparr>
      else if n = 0x4 \<or> n = 0x5 \<or> n = 0x6 \<or> n = 0x7 then
        \<lparr>type = MEMORY_MAP_ROM_BANK_SWITCH, addr = a AND 0x3fff\<rparr>
      else if n = 0x8 \<or> n = 0x9 then
        \<lparr>type = MEMORY_MAP_VRAM, addr = a AND 0x1fff\<rparr>
      else if n = 0xA \<or> n = 0xB then
        \<lparr>type = MEMORY_MAP_EXTERNAL_RAM, addr = a AND 0x1fff\<rparr>
      else if n = 0xC \<or> n = 0xE then
        \<lparr>type = MEMORY_MAP_WORK_RAM, addr = a AND 0x0fff\<rparr>
      else if n = 0xD then
        \<lparr>type = MEMORY_MAP_WORK_RAM_BANK_SWITCH, addr = a AND 0x0fff\<rparr>
      else
        (if a < 0xfe00 then \<lparr>type = MEMORY_MAP_WORK_RAM_BANK_SWITCH, addr = a AND 0x0fff\<rparr>
         else if a \<le> 0xfe9f then \<lparr>type = MEMORY_MAP_OAM, addr = a - 0xfe00\<rparr>
         else if a \<le> 0xfeff then \<lparr>type = MEMORY_MAP_UNUSED, addr = a\<rparr>
         else if a < 0xff10 then \<lparr>type = MEMORY_MAP_IO, addr = a - 0xff00\<rparr>
         else if a < 0xff30 then \<lparr>type = MEMORY_MAP_APU, addr = a - 0xff10\<rparr>
         else if a \<le> 0xff3f then \<lparr>type = MEMORY_MAP_WAVE_RAM, addr = a - 0xff30\<rparr>
         else if a \<le> 0xff7f then \<lparr>type = MEMORY_MAP_IO, addr = a - 0xff00\<rparr>
         else if a \<le> 0xfffe then \<lparr>type = MEMORY_MAP_HIGH_RAM, addr = a - 0xff80\<rparr>
         else \<lparr>type = MEMORY_MAP_IO, addr = a - 0xff00\<rparr>))"

section \<open>Reads\<close>

definition read_vram :: "Emulator \<Rightarrow> MaskedAddress \<Rightarrow> u8 option" where
  "read_vram e ad =
     (if mode (stat (lcd e)) = LCD_MODE_USING_OAM_VRAM then Some INVALID_READ_BYTE
      else do {
        c_assert (ad \<le> 0x1fff);
        index_array (VideoRam.data (vram e)) VIDEO_RAM_SIZE (unat ad)
      })"

definition is_using_oam :: "Emulator \<Rightarrow> bool" where
  "is_using_oam e \<longleftrightarrow>
     mode (stat (lcd e)) = LCD_MODE_USING_OAM \<or> mode (stat (lcd e)) = LCD_MODE_USING_OAM_VRAM"

definition read_oam :: "Emulator \<Rightarrow> MaskedAddress \<Rightarrow> u8 option" where
  "read_oam e ad =
     (if is_using_oam e then Some INVALID_READ_BYTE
      else do {
        let obj_index = (ucast (drop_bit 2 ad) :: u8);
        obj \<leftarrow> index_array (objs (oam e)) OBJ_COUNT (unat obj_index);
        let k = ad AND 3;
        Some (if k = 0 then obj_y obj + 16
              else if k = 1 then obj_x obj + 8
              else if k = 2 then Obj.tile obj
              else byte3 obj)
      })"

definition LCDMode_code :: "LCDMode \<Rightarrow> u8" where
  "LCDMode_code m =
     (case m of LCD_MODE_HBLANK \<Rightarrow> 0 | LCD_MODE_VBLANK \<Rightarrow> 1
      | LCD_MODE_USING_OAM \<Rightarrow> 2 | LCD_MODE_USING_OAM_VRAM \<Rightarrow> 3)"

definition read_palette :: "Palette \<Rightarrow> u8" where
  "read_palette p =
     ENCODE (color p 3) 7 6 OR ENCODE (color p 2) 5 4 OR
     ENCODE (color p 1) 3 2 OR ENCODE (color p 0) 1 0"

definition read_io :: "Emulator \<Rightarrow> MaskedAddress \<Rightarrow> u8" where
  "read_io e ad =
     (if ad = 0x00 then
        (let j = joypad e;
             r0 = (0 :: u8);
             r1 = (if joypad_select j = 1 \<or> joypad_select j = 0
                   then r0 OR (ENCODE_BOOL (start j) 3 OR ENCODE_BOOL (select j) 2 OR
                               ENCODE_BOOL (Joypad.B j) 1 OR ENCODE_BOOL (Joypad.A j) 0)
                   else r0);
             r2 = (if joypad_select j = 2 \<or> joypad_select j = 0
                   then r1 OR (ENCODE_BOOL (down j) 3 OR ENCODE_BOOL (up j) 2 OR
                               ENCODE_BOOL (left j) 1 OR ENCODE_BOOL (right j) 0)
                   else r1)
         in 0xc0 OR ENCODE (ucast (joypad_select j)) 5 4 OR (NOT r2 AND 0x0f))
      else if ad = 0x01 then 0
      else if ad = 0x02 then
        0x7e OR ENCODE_BOOL (transfer_start (serial e)) 7 OR
        ENCODE_BOOL (shift_clock (serial e)) 0
      else if ad = 0x04 then ucast (drop_bit 8 (div_counter (Emulator.timer e)))
      else if ad = 0x05 then TIMA (Emulator.timer e)
      else if ad = 0x06 then TMA (Emulator.timer e)
      else if ad = 0x07 then
        0xf8 OR ENCODE_BOOL (on (Emulator.timer e)) 2 OR ENCODE (ucast (clock_select (Emulator.timer e))) 1 0
      else if ad = 0x0f then 0xe0 OR IF (interrupts e)
      else if ad = 0x40 then
        (let c = lcdc (lcd e) in
         ENCODE_BOOL (display c) 7 OR ENCODE (window_tile_map_select c) 6 6 OR
         ENCODE_BOOL (window_display c) 5 OR ENCODE (bg_tile_data_select c) 4 4 OR
         ENCODE (bg_tile_map_select c) 3 3 OR ENCODE (obj_size c) 2 2 OR
         ENCODE_BOOL (obj_display c) 1 OR ENCODE_BOOL (bg_display c) 0)
      else if ad = 0x41 then
        (let st = stat (lcd e) in
         0x80 OR ENCODE_BOOL (y_compare_intr st) 6 OR ENCODE_BOOL (using_oam_intr st) 5 OR
         ENCODE_BOOL (vblank_intr st) 4 OR ENCODE_BOOL (hblank_intr st) 3 OR
         ENCODE_BOOL (LY (lcd e) = LYC (lcd e)) 2 OR ENCODE (LCDMode_code (mode st)) 1 0)
      else if ad = 0x42 then SCY (lcd e)
      else if ad = 0x43 then SCX (lcd e)
      else if ad = 0x44 then LY (lcd e)
      else if ad = 0x45 then LYC (lcd e)
      else if ad = 0x46 then INVALID_READ_BYTE
      else if ad = 0x47 then read_palette (bgp (lcd e))
      else if ad = 0x48 then read_palette (obp (oam e) 0)
      else if ad = 0x49 then read_palette (obp (oam e) 1)
      else if ad = 0x4a then WY (lcd e)
      else if ad = 0x4b then WX (lcd e)
      else if ad = 0xff then IE (interrupts e)
      else INVALID_READ_BYTE)"

definition read_nrx1_reg :: "Channel \<Rightarrow> u8" where
  "read_nrx1_reg ch = ENCODE (ucast (duty (square_wave ch))) 7 6"

definition read_nrx2_reg :: "Channel \<Rightarrow> u8" where
  "read_nrx2_reg ch =
     ENCODE (initial_volume (envelope ch)) 7 4 OR
     ENCODE (Envelope.direction (envelope ch)) 3 3 OR
     ENCODE (Envelope.period (envelope ch)) 2 0"

definition read_nrx4_reg :: "Channel \<Rightarrow> u8" where
  "read_nrx4_reg ch = ENCODE_BOOL (length_enabled ch) 6"

text \<open>Indices of \<^verbatim>\<open>sound.channel\<close>, \<^verbatim>\<open>so1_output\<close> and \<^verbatim>\<open>so2_output\<close>.\<close>

definition CHANNEL1 :: nat where "CHANNEL1 = 0"
definition CHANNEL2 :: nat where "CHANNEL2 = 1"
definition CHANNEL3 :: nat where "CHANNEL3 = 2"
definition CHANNEL4 :: nat where "CHANNEL4 = 3"
definition SOUND1 :: nat where "SOUND1 = 0"
definition SOUND2 :: nat where "SOUND2 = 1"
definition SOUND3 :: nat where "SOUND3 = 2"
definition SOUND4 :: nat where "SOUND4 = 3"
definition VIN :: nat where "VIN = 4"

definition apu_read_mask :: "u8 list" where
  "apu_read_mask =
     [0x80, 0x3f, 0x00, 0xff, 0xbf,
      0xff, 0x3f, 0x00, 0xff, 0xbf,
      0x7f, 0xff, 0x9f, 0xff, 0xbf,
      0xff, 0xff, 0x00, 0x00, 0xbf,
      0x00, 0x00, 0x70,
      0xff, 0xff, 0xff, 0xff, 0xff, 0xff, 0xff, 0xff, 0xff]"

definition read_apu :: "Emulator \<Rightarrow> MaskedAddress \<Rightarrow> u8 option" where
  "read_apu e ad = do {
     c_assert (unat ad < List.length apu_read_mask);
     let r = apu_read_mask ! unat ad;
     let s = sound e;
     let channel1 = channel s CHANNEL1;
     let channel2 = channel s CHANNEL2;
     let channel3 = channel s CHANNEL3;
     let channel4 = channel s CHANNEL4;
     Some
      (if ad = 0x0 then
         r OR (ENCODE (Sweep.period (sweep s)) 6 4 OR ENCODE (Sweep.direction (sweep s)) 3 3 OR
               ENCODE (ucast (shift (sweep s))) 2 0)
       else if ad = 0x1 then r OR read_nrx1_reg channel1
       else if ad = 0x2 then r OR read_nrx2_reg channel1
       else if ad = 0x3 then r OR INVALID_READ_BYTE
       else if ad = 0x4 then r OR read_nrx4_reg channel1
       else if ad = 0x6 then r OR read_nrx1_reg channel2
       else if ad = 0x7 then r OR read_nrx2_reg channel2
       else if ad = 0x8 then r OR INVALID_READ_BYTE
       else if ad = 0x9 then r OR read_nrx4_reg channel2
       else if ad = 0xa then r OR ENCODE_BOOL (dac_enabled channel3) 7
       else if ad = 0xb then r OR INVALID_READ_BYTE
       else if ad = 0xc then r OR ENCODE (ucast (Wave.volume (wave s))) 6 5
       else if ad = 0xd then r OR INVALID_READ_BYTE
       else if ad = 0xe then r OR read_nrx4_reg channel3
       else if ad = 0x10 then r OR INVALID_READ_BYTE
       else if ad = 0x11 then r OR read_nrx2_reg channel4
       else if ad = 0x12 then
         r OR (ENCODE (ucast (clock_shift (noise s))) 7 4 OR ENCODE (lfsr_width (noise s)) 3 3 OR
               ENCODE (ucast (divisor (noise s))) 2 0)
       else if ad = 0x13 then r OR read_nrx4_reg channel4
       else if ad = 0x14 then
         r OR (ENCODE_BOOL (so2_output s VIN) 7 OR ENCODE (so2_volume s) 6 4 OR
               ENCODE_BOOL (so1_output s VIN) 3 OR ENCODE (so1_volume s) 2 0)
       else if ad = 0x15 then
         r OR (ENCODE_BOOL (so2_output s SOUND4) 7 OR ENCODE_BOOL (so2_output s SOUND3) 6 OR
               ENCODE_BOOL (so2_output s SOUND2) 5 OR ENCODE_BOOL (so2_output s SOUND1) 4 OR
               ENCODE_BOOL (so1_output s SOUND4) 3 OR ENCODE_BOOL (so1_output s SOUND3) 2 OR
               ENCODE_BOOL (so1_output s SOUND2) 1 OR ENCODE_BOOL (so1_output s SOUND1) 0)
       else if ad = 0x16 then
         r OR (ENCODE_BOOL (Sound.enabled s) 7 OR ENCODE_BOOL (status channel4) 3 OR
               ENCODE_BOOL (status channel3) 2 OR ENCODE_BOOL (status channel2) 1 OR
               ENCODE_BOOL (status channel1) 0)
       else r)
   }"

text \<open>\<^verbatim>\<open>is_concurrent_wave_ram_access\<close> returns a pointer to \<^verbatim>\<open>wave->sample[i]\<close> or
  \<^verbatim>\<open>NULL\<close>; the model returns the index \<open>i\<close>.\<close>

definition is_concurrent_wave_ram_access :: "Emulator \<Rightarrow> u8 \<Rightarrow> nat option" where
  "is_concurrent_wave_ram_access e offset_cycles =
     (let w = wave (sound e) in
      if time (Wave.sample w 0) = Emulator.cycles e + ucast offset_cycles then Some 0
      else if time (Wave.sample w 1) = Emulator.cycles e + ucast offset_cycles then Some 1
      else None)"

definition read_wave_ram :: "Emulator \<Rightarrow> MaskedAddress \<Rightarrow> u8 option" where
  "read_wave_ram e ad =
     (let w = wave (sound e) in
      if status (channel (sound e) CHANNEL3) then
        (case is_concurrent_wave_ram_access e 0 of
           Some i \<Rightarrow> Some (byte (Wave.sample w i))
         | None \<Rightarrow> Some INVALID_READ_BYTE)
      else index_array (Wave.ram w) WAVE_RAM_SIZE (unat ad))"

definition is_dma_access_ok :: "Emulator \<Rightarrow> MemoryTypeAddressPair \<Rightarrow> bool" where
  "is_dma_access_ok e pair \<longleftrightarrow>
     \<not> active (dma e) \<or> type pair = MEMORY_MAP_HIGH_RAM \<or>
     (type (source (dma e)) = MEMORY_MAP_VRAM \<and>
      type pair \<noteq> MEMORY_MAP_VRAM \<and> type pair \<noteq> MEMORY_MAP_OAM)"

definition read_u8_no_dma_check :: "Emulator \<Rightarrow> MemoryTypeAddressPair \<Rightarrow> u8 option" where
  "read_u8_no_dma_check e pair =
     (case type pair of
        MEMORY_MAP_ROM \<Rightarrow>
          index_array (RomData.data (rom_data e)) (RomData.size_bytes (rom_data e))
            (unat (addr pair))
      | MEMORY_MAP_ROM_BANK_SWITCH \<Rightarrow>
          (let rom_addr =
                 unat (push_bit 14 (ucast (rom_bank (memory_map e)) :: u32) OR ucast (addr pair))
           in if rom_addr < RomData.size_bytes (rom_data e)
              then Some (RomData.data (rom_data e) rom_addr)
              else Some INVALID_READ_BYTE)
      | MEMORY_MAP_VRAM \<Rightarrow> read_vram e (addr pair)
      | MEMORY_MAP_EXTERNAL_RAM \<Rightarrow> call_read_external_ram e (addr pair)
      | MEMORY_MAP_WORK_RAM \<Rightarrow>
          index_array (WorkRam.data (ram e)) WORK_RAM_MAX_SIZE (unat (addr pair))
      | MEMORY_MAP_WORK_RAM_BANK_SWITCH \<Rightarrow> gb_read_work_ram_bank_switch e (addr pair)
      | MEMORY_MAP_OAM \<Rightarrow> read_oam e (addr pair)
      | MEMORY_MAP_UNUSED \<Rightarrow> Some 0
      | MEMORY_MAP_IO \<Rightarrow> Some (read_io e (addr pair))
      | MEMORY_MAP_APU \<Rightarrow> read_apu e (addr pair)
      | MEMORY_MAP_WAVE_RAM \<Rightarrow> read_wave_ram e (addr pair)
      | MEMORY_MAP_HIGH_RAM \<Rightarrow> index_array (hram e) HIGH_RAM_SIZE (unat (addr pair)))"

definition read_u8 :: "Emulator \<Rightarrow> Address \<Rightarrow> u8 option" where
  "read_u8 e a =
     (let pair = map_address a in
      if \<not> is_dma_access_ok e pair then Some INVALID_READ_BYTE
      else read_u8_no_dma_check e pair)"

definition read_u16 :: "Emulator \<Rightarrow> Address \<Rightarrow> u16 option" where
  "read_u16 e a = do {
     lo \<leftarrow> read_u8 e a;
     hi \<leftarrow> read_u8 e (a + 1);
     Some (ucast lo OR push_bit 8 (ucast hi))
   }"

section \<open>Writes\<close>

definition write_vram_tile_data ::
    "Emulator \<Rightarrow> nat \<Rightarrow> nat \<Rightarrow> nat \<Rightarrow> u8 \<Rightarrow> Emulator option" where
  "write_vram_tile_data e index plane ty v = do {
     c_assert (index < TILE_COUNT);
     let data_index = ty * 8;
     c_assert (data_index < 8 * 8);
     let m = (push_bit plane 1 :: u8);
     let not_mask = NOT m;
     let t = fold (\<lambda>i t. t(data_index + i :=
                 (t (data_index + i) AND not_mask) OR
                 (push_bit plane (drop_bit (7 - i) v) AND m)))
               [0..<8] (VideoRam.tile (vram e) index);
     Some (e\<lparr>vram := (vram e)\<lparr>VideoRam.tile := (VideoRam.tile (vram e))(index := t)\<rparr>\<rparr>)
   }"

definition write_vram :: "Emulator \<Rightarrow> MaskedAddress \<Rightarrow> u8 \<Rightarrow> Emulator option" where
  "write_vram e ad v =
     (if mode (stat (lcd e)) = LCD_MODE_USING_OAM_VRAM then Some e
      else do {
        c_assert (ad \<le> 0x1fff);
        d \<leftarrow> store_array (VideoRam.data (vram e)) VIDEO_RAM_SIZE (unat ad) v;
        let e1 = e\<lparr>vram := (vram e)\<lparr>VideoRam.data := d\<rparr>\<rparr>;
        if ad < 0x1800 then do {
          let tile_index = unat (drop_bit 4 ad);
          let tile_y = unat (drop_bit 1 ad AND 0x7);
          let plane = unat (ad AND 1);
          e2 \<leftarrow> write_vram_tile_data e1 tile_index plane tile_y v;
          if 128 \<le> tile_index \<and> tile_index < 256
          then write_vram_tile_data e2 (tile_index + 256) plane tile_y v
          else Some e2
        } else do {
          let ad1 = ad - 0x1800;
          let map_index = unat (drop_bit 10 ad1);
          c_assert (map_index < 2);
          Some (e1\<lparr>vram := (vram e1)\<lparr>tile_map := (tile_map (vram e1))
                  (map_index := (tile_map (vram e1) map_index)(unat (ad1 AND 0x03ff) := v))\<rparr>\<rparr>)
        }
      })"

definition write_oam_no_mode_check ::
    "Emulator \<Rightarrow> MaskedAddress \<Rightarrow> u8 \<Rightarrow> Emulator option" where
  "write_oam_no_mode_check e ad v = do {
     let i = unat (drop_bit 2 ad);
     obj \<leftarrow> index_array (objs (oam e)) OBJ_COUNT i;
     let k = ad AND 3;
     let obj1 =
       (if k = 0 then obj\<lparr>obj_y := v - 16\<rparr>
        else if k = 1 then obj\<lparr>obj_x := v - 8\<rparr>
        else if k = 2 then obj\<lparr>Obj.tile := v\<rparr>
        else obj\<lparr>byte3 := v, priority := DECODE v 7 7, yflip := DECODE_BOOL v 6,
                 xflip := DECODE_BOOL v 5, palette := DECODE v 4 4\<rparr>);
     Some (e\<lparr>oam := (oam e)\<lparr>objs := (objs (oam e))(i := obj1)\<rparr>\<rparr>)
   }"

definition write_oam :: "Emulator \<Rightarrow> MaskedAddress \<Rightarrow> u8 \<Rightarrow> Emulator option" where
  "write_oam e ad v = (if is_using_oam e then Some e else write_oam_no_mode_check e ad v)"

definition increment_tima :: "Emulator \<Rightarrow> Emulator" where
  "increment_tima e =
     (let t = (Emulator.timer e)\<lparr>TIMA := TIMA (Emulator.timer e) + 1\<rparr> in
      if TIMA t = 0 then e\<lparr>Emulator.timer := t\<lparr>tima_overflow := True\<rparr>\<rparr>
      else e\<lparr>Emulator.timer := t\<rparr>)"

definition s_tima_mask :: "2 word \<Rightarrow> u16" where
  "s_tima_mask c = [push_bit 9 1, push_bit 3 1, push_bit 5 1, push_bit 7 1] ! unat c"

definition write_div_counter :: "Emulator \<Rightarrow> u16 \<Rightarrow> Emulator" where
  "write_div_counter e dc =
     (let e1 =
        (if on (Emulator.timer e) then
           (let falling_edge = (div_counter (Emulator.timer e) XOR dc) AND NOT dc in
            if falling_edge AND s_tima_mask (clock_select (Emulator.timer e)) \<noteq> 0
            then increment_tima e else e)
         else e)
      in e1\<lparr>Emulator.timer := (Emulator.timer e1)\<lparr>div_counter := dc\<rparr>\<rparr>)"

definition write_palette :: "Palette \<Rightarrow> u8 \<Rightarrow> Palette" where
  "write_palette p v =
     p\<lparr>color := (color p)(3 := DECODE v 7 6, 2 := DECODE v 5 4,
                             1 := DECODE v 3 2, 0 := DECODE v 1 0)\<rparr>"

definition write_io :: "Emulator \<Rightarrow> MaskedAddress \<Rightarrow> u8 \<Rightarrow> Emulator" where
  "write_io e ad v =
     (if ad = 0x00 then e\<lparr>joypad := (joypad e)\<lparr>joypad_select := ucast (DECODE v 5 4)\<rparr>\<rparr>
      else if ad = 0x01 then e
      else if ad = 0x02 then
        e\<lparr>serial := (serial e)\<lparr>transfer_start := DECODE_BOOL v 7,
                                  shift_clock := DECODE_BOOL v 0\<rparr>\<rparr>
      else if ad = 0x04 then write_div_counter e 0
      else if ad = 0x05 then e\<lparr>Emulator.timer := (Emulator.timer e)\<lparr>TIMA := v\<rparr>\<rparr>
      else if ad = 0x06 then e\<lparr>Emulator.timer := (Emulator.timer e)\<lparr>TMA := v\<rparr>\<rparr>
      else if ad = 0x07 then
        (let old_timer_on = on (Emulator.timer e);
             old_tima_mask = s_tima_mask (clock_select (Emulator.timer e));
             e1 = e\<lparr>Emulator.timer := (Emulator.timer e)
                    \<lparr>clock_select := ucast (DECODE v 1 0), on := DECODE_BOOL v 2\<rparr>\<rparr>
         in if \<not> old_timer_on then
              (let tima_mask = s_tima_mask (clock_select (Emulator.timer e1));
                   tima_tick =
                     (if on (Emulator.timer e1)
                      then div_counter (Emulator.timer e1) AND old_tima_mask \<noteq> 0
                      else div_counter (Emulator.timer e1) AND old_tima_mask \<noteq> 0 \<and>
                           div_counter (Emulator.timer e1) AND tima_mask = 0)
               in if tima_tick then increment_tima e1 else e1)
            else e1)
      else if ad = 0x0f then e\<lparr>interrupts := (interrupts e)\<lparr>IF := v\<rparr>\<rparr>
      else if ad = 0x40 then
        (let was_enabled = display (lcdc (lcd e));
             c = (lcdc (lcd e))
                   \<lparr>display := DECODE_BOOL v 7,
                    window_tile_map_select := DECODE v 6 6,
                    window_display := DECODE_BOOL v 5,
                    bg_tile_data_select := DECODE v 4 4,
                    bg_tile_map_select := DECODE v 3 3,
                    obj_size := DECODE v 2 2,
                    obj_display := DECODE_BOOL v 1,
                    bg_display := DECODE_BOOL v 0\<rparr>;
             l = (lcd e)\<lparr>lcdc := c\<rparr>
         in if was_enabled \<and> \<not> display c then
              e\<lparr>lcd := l\<lparr>LCD.cycles := 0, LY := 0, fake_LY := 0,
                          stat := (stat l)\<lparr>mode := LCD_MODE_VBLANK\<rparr>\<rparr>\<rparr>
            else if \<not> was_enabled \<and> display c then
              e\<lparr>lcd := l\<lparr>LCD.cycles := 0, LY := 0,
                          stat := (stat l)\<lparr>mode := LCD_MODE_USING_OAM\<rparr>\<rparr>\<rparr>
            else e\<lparr>lcd := l\<rparr>)
      else if ad = 0x41 then
        e\<lparr>lcd := (lcd e)\<lparr>stat := (stat (lcd e))
              \<lparr>y_compare_intr := DECODE_BOOL v 6, using_oam_intr := DECODE_BOOL v 5,
               vblank_intr := DECODE_BOOL v 4, hblank_intr := DECODE_BOOL v 3\<rparr>\<rparr>\<rparr>
      else if ad = 0x42 then e\<lparr>lcd := (lcd e)\<lparr>SCY := v\<rparr>\<rparr>
      else if ad = 0x43 then e\<lparr>lcd := (lcd e)\<lparr>SCX := v\<rparr>\<rparr>
      else if ad = 0x44 then e
      else if ad = 0x45 then e\<lparr>lcd := (lcd e)\<lparr>LYC := v\<rparr>\<rparr>
      else if ad = 0x46 then
        e\<lparr>dma := (dma e)\<lparr>active := True,
                            source := map_address (push_bit 8 (ucast v)),
                            addr_offset := 0, DMA.cycles := 0\<rparr>\<rparr>
      else if ad = 0x47 then e\<lparr>lcd := (lcd e)\<lparr>bgp := write_palette (bgp (lcd e)) v\<rparr>\<rparr>
      else if ad = 0x48 then
        e\<lparr>oam := (oam e)\<lparr>obp := (obp (oam e))(0 := write_palette (obp (oam e) 0) v)\<rparr>\<rparr>
      else if ad = 0x49 then
        e\<lparr>oam := (oam e)\<lparr>obp := (obp (oam e))(1 := write_palette (obp (oam e) 1) v)\<rparr>\<rparr>
      else if ad = 0x4a then e\<lparr>lcd := (lcd e)\<lparr>WY := v\<rparr>\<rparr>
      else if ad = 0x4b then e\<lparr>lcd := (lcd e)\<lparr>WX := v\<rparr>\<rparr>
      else if ad = 0xff then e\<lparr>interrupts := (interrupts e)\<lparr>IE := v\<rparr>\<rparr>
      else e)"

section \<open>APU register writes\<close>

text \<open>The C functions take pointers \<^verbatim>\<open>&sound->channel[i]\<close>, \<^verbatim>\<open>&sound->sweep\<close>,
  \<^verbatim>\<open>&sound->wave\<close>, \<^verbatim>\<open>&sound->noise\<close> into the emulator; the model passes the
  channel index and updates the emulator.\<close>

definition set_channel :: "Emulator \<Rightarrow> nat \<Rightarrow> Channel \<Rightarrow> Emulator" where
  "set_channel e i ch = e\<lparr>sound := (sound e)\<lparr>channel := (channel (sound e))(i := ch)\<rparr>\<rparr>"

definition set_sweep :: "Emulator \<Rightarrow> Sweep \<Rightarrow> Emulator" where
  "set_sweep e sw = e\<lparr>sound := (sound e)\<lparr>sweep := sw\<rparr>\<rparr>"

definition set_wave :: "Emulator \<Rightarrow> Wave \<Rightarrow> Emulator" where
  "set_wave e w = e\<lparr>sound := (sound e)\<lparr>wave := w\<rparr>\<rparr>"

definition set_noise :: "Emulator \<Rightarrow> Noise \<Rightarrow> Emulator" where
  "set_noise e nz = e\<lparr>sound := (sound e)\<lparr>noise := nz\<rparr>\<rparr>"

definition NRX1_MAX_LENGTH :: u16 where "NRX1_MAX_LENGTH = 64"
definition NR31_MAX_LENGTH :: u16 where "NR31_MAX_LENGTH = 256"
definition SWEEP_MAX_PERIOD :: u8 where "SWEEP_MAX_PERIOD = 8"
definition SOUND_MAX_FREQUENCY :: u16 where "SOUND_MAX_FREQUENCY = 2047"
definition ENVELOPE_MAX_PERIOD :: u32 where "ENVELOPE_MAX_PERIOD = 8"
definition ENVELOPE_MAX_VOLUME :: u8 where "ENVELOPE_MAX_VOLUME = 15"
definition WAVE_SAMPLE_TRIGGER_OFFSET_CYCLES :: u8 where "WAVE_SAMPLE_TRIGGER_OFFSET_CYCLES = 2"
definition APU_REG_COUNT :: nat where "APU_REG_COUNT = 0x17"

definition write_nrx1_reg :: "Emulator \<Rightarrow> nat \<Rightarrow> u8 \<Rightarrow> Emulator" where
  "write_nrx1_reg e i v =
     (let ch = channel (sound e) i;
          ch1 = (if Sound.enabled (sound e)
                 then ch\<lparr>square_wave := (square_wave ch)\<lparr>duty := ucast (DECODE v 7 6)\<rparr>\<rparr>
                 else ch)
      in set_channel e i (ch1\<lparr>length_ctr := NRX1_MAX_LENGTH - ucast (DECODE v 5 0)\<rparr>))"

definition write_nrx2_reg :: "Emulator \<Rightarrow> nat \<Rightarrow> u8 \<Rightarrow> Emulator" where
  "write_nrx2_reg e i v =
     (let ch = channel (sound e) i;
          ch1 = ch\<lparr>envelope := (envelope ch)\<lparr>initial_volume := DECODE v 7 4\<rparr>,
                   dac_enabled := (DECODE v 7 3 \<noteq> 0)\<rparr>;
          ch2 = (if \<not> dac_enabled ch1 then ch1\<lparr>status := False\<rparr> else ch1)
      in set_channel e i
           (ch2\<lparr>envelope := (envelope ch2)\<lparr>Envelope.direction := DECODE v 3 3,
                                             Envelope.period := DECODE v 2 0\<rparr>\<rparr>))"

definition write_nrx3_reg :: "Emulator \<Rightarrow> nat \<Rightarrow> u8 \<Rightarrow> Emulator" where
  "write_nrx3_reg e i v =
     (let ch = channel (sound e) i
      in set_channel e i
           (ch\<lparr>Channel.frequency := (Channel.frequency ch AND NOT 0xff) OR ucast v\<rparr>))"

definition write_nrx4_reg :: "Emulator \<Rightarrow> nat \<Rightarrow> u8 \<Rightarrow> u16 \<Rightarrow> bool \<times> Emulator" where
  "write_nrx4_reg e i v max_length =
     (let ch = channel (sound e) i;
          trigger = DECODE_BOOL v 7;
          was_length_enabled = length_enabled ch;
          ch1 = ch\<lparr>length_enabled := DECODE_BOOL v 6,
                   Channel.frequency :=
                     (Channel.frequency ch AND 0xff) OR push_bit 8 (ucast (DECODE v 2 0))\<rparr>;
          next_frame_is_length = (Sound.frame (sound e) AND 1 = 1);
          ch2 =
            (if \<not> was_length_enabled \<and> length_enabled ch1 \<and> \<not> next_frame_is_length \<and>
                length_ctr ch1 > 0
             then (let c = ch1\<lparr>length_ctr := length_ctr ch1 - 1\<rparr>
                   in if \<not> trigger \<and> length_ctr c = 0 then c\<lparr>status := False\<rparr> else c)
             else ch1);
          ch3 =
            (if trigger then
               (let c =
                  (if length_ctr ch2 = 0 then
                     (let c0 = ch2\<lparr>length_ctr := max_length\<rparr>
                      in if length_enabled c0 \<and> \<not> next_frame_is_length
                         then c0\<lparr>length_ctr := length_ctr c0 - 1\<rparr> else c0)
                   else ch2)
                in if dac_enabled c then c\<lparr>status := True\<rparr> else c)
             else ch2)
      in (trigger, set_channel e i ch3))"

definition trigger_nrx4_envelope :: "Emulator \<Rightarrow> nat \<Rightarrow> Emulator" where
  "trigger_nrx4_envelope e i =
     (let ch = channel (sound e) i;
          env = envelope ch;
          env1 = env\<lparr>Envelope.volume := initial_volume env,
                     Envelope.timer :=
                       (if Envelope.period env \<noteq> 0 then ucast (Envelope.period env)
                        else ENVELOPE_MAX_PERIOD),
                     automatic := (Envelope.period env \<noteq> 0)\<rparr>;
          env2 = (if unat (Sound.frame (sound e)) + 1 = 7
                  then env1\<lparr>Envelope.timer := Envelope.timer env1 + 1\<rparr> else env1)
      in set_channel e i (ch\<lparr>envelope := env2\<rparr>))"

definition calculate_sweep_frequency :: "Sweep \<Rightarrow> u16 \<times> Sweep" where
  "calculate_sweep_frequency sw =
     (let f = Sweep.frequency sw in
      if Sweep.direction sw = 0 then (f + drop_bit (unat (shift sw)) f, sw)
      else (f - drop_bit (unat (shift sw)) f, sw\<lparr>calculated_subtract := True\<rparr>))"

definition trigger_nr14_reg :: "Emulator \<Rightarrow> nat \<Rightarrow> Emulator" where
  "trigger_nr14_reg e i =
     (let ch = channel (sound e) i;
          sw = sweep (sound e);
          sw1 = sw\<lparr>Sweep.enabled := (Sweep.period sw \<noteq> 0 \<or> shift sw \<noteq> 0),
                   Sweep.frequency := Channel.frequency ch,
                   Sweep.timer := (if Sweep.period sw \<noteq> 0 then Sweep.period sw
                                   else SWEEP_MAX_PERIOD),
                   calculated_subtract := False\<rparr>
      in if shift sw1 \<noteq> 0 then
           (let (f, sw2) = calculate_sweep_frequency sw1 in
            if f > SOUND_MAX_FREQUENCY
            then set_channel (set_sweep e sw2) i (ch\<lparr>status := False\<rparr>)
            else set_sweep e sw2)
         else set_sweep e sw1)"

definition trigger_nr34_reg :: "Emulator \<Rightarrow> nat \<Rightarrow> Emulator option" where
  "trigger_nr34_reg e i = do {
     let w = wave (sound e);
     let w1 = w\<lparr>Wave.position := 0, Wave.cycles := Wave.period w\<rparr>;
     let e1 = set_wave e w1;
     w2 \<leftarrow>
       (if playing w1 then
          (case is_concurrent_wave_ram_access e1 WAVE_SAMPLE_TRIGGER_OFFSET_CYCLES of
             Some k \<Rightarrow> do {
               let smp = Wave.sample w1 k;
               c_assert (WaveSample.position smp < 32);
               let n = drop_bit 3 (WaveSample.position smp);
               if n = 0 then Some (w1\<lparr>Wave.ram := (Wave.ram w1)(0 := byte smp)\<rparr>)
               else if n = 1 \<or> n = 2 \<or> n = 3 then
                 (let src = unat (drop_bit 1 (WaveSample.position smp) AND 12)
                  in Some (w1\<lparr>Wave.ram := (Wave.ram w1)
                              (0 := Wave.ram w1 src, 1 := Wave.ram w1 (src + 1),
                               2 := Wave.ram w1 (src + 2), 3 := Wave.ram w1 (src + 3))\<rparr>))
               else Some w1
             }
           | None \<Rightarrow> Some w1)
        else Some w1);
     Some (set_wave e1 (w2\<lparr>playing := True\<rparr>))
   }"

definition trigger_nr44_reg :: "Emulator \<Rightarrow> nat \<Rightarrow> Emulator" where
  "trigger_nr44_reg e i = set_noise e ((noise (sound e))\<lparr>lfsr := 0x7fff\<rparr>)"

definition write_wave_period :: "Emulator \<Rightarrow> nat \<Rightarrow> Emulator" where
  "write_wave_period e i =
     set_wave e ((wave (sound e))
       \<lparr>Wave.period := ((ucast SOUND_MAX_FREQUENCY + 1) -
                         ucast (Channel.frequency (channel (sound e) i))) * 2\<rparr>)"

definition write_square_wave_period :: "Channel \<Rightarrow> Channel" where
  "write_square_wave_period ch =
     ch\<lparr>square_wave := (square_wave ch)
          \<lparr>SquareWave.period := ((ucast SOUND_MAX_FREQUENCY + 1) -
                                  ucast (Channel.frequency ch)) * 4\<rparr>\<rparr>"

definition s_divisors :: "u8 list" where
  "s_divisors = [8, 16, 32, 48, 64, 80, 96, 112]"

definition write_noise_period :: "Emulator \<Rightarrow> Emulator" where
  "write_noise_period e =
     (let nz = noise (sound e);
          dv = s_divisors ! unat (divisor nz)
      in set_noise e (nz\<lparr>Noise.period := push_bit (unat (clock_shift nz)) (ucast dv)\<rparr>))"

text \<open>The cases of the \<^verbatim>\<open>switch\<close> of \<^verbatim>\<open>write_apu\<close> other than \<^verbatim>\<open>APU_NR52_ADDR\<close>.\<close>

definition write_apu_reg :: "Emulator \<Rightarrow> MaskedAddress \<Rightarrow> u8 \<Rightarrow> Emulator option" where
  "write_apu_reg e ad v =
     (if ad = 0x0 then
        (let sw = sweep (sound e);
             old_direction = Sweep.direction sw;
             sw1 = sw\<lparr>Sweep.period := DECODE v 6 4, Sweep.direction := DECODE v 3 3,
                      shift := ucast (DECODE v 2 0)\<rparr>;
             e1 = set_sweep e sw1
         in if old_direction = 1 \<and> Sweep.direction sw1 = 0 \<and> calculated_subtract sw1
            then Some (set_channel e1 CHANNEL1 ((channel (sound e1) CHANNEL1)\<lparr>status := False\<rparr>))
            else Some e1)
      else if ad = 0x1 then Some (write_nrx1_reg e CHANNEL1 v)
      else if ad = 0x2 then Some (write_nrx2_reg e CHANNEL1 v)
      else if ad = 0x3 then
        (let e1 = write_nrx3_reg e CHANNEL1 v
         in Some (set_channel e1 CHANNEL1 (write_square_wave_period (channel (sound e1) CHANNEL1))))
      else if ad = 0x4 then
        (let (trigger, e1) = write_nrx4_reg e CHANNEL1 v NRX1_MAX_LENGTH;
             e2 = set_channel e1 CHANNEL1 (write_square_wave_period (channel (sound e1) CHANNEL1))
         in if trigger then Some (trigger_nr14_reg (trigger_nrx4_envelope e2 CHANNEL1) CHANNEL1)
            else Some e2)
      else if ad = 0x6 then Some (write_nrx1_reg e CHANNEL2 v)
      else if ad = 0x7 then Some (write_nrx2_reg e CHANNEL2 v)
      else if ad = 0x8 then
        (let e1 = write_nrx3_reg e CHANNEL2 v
         in Some (set_channel e1 CHANNEL2 (write_square_wave_period (channel (sound e1) CHANNEL2))))
      else if ad = 0x9 then
        (let (trigger, e1) = write_nrx4_reg e CHANNEL2 v NRX1_MAX_LENGTH;
             e2 = set_channel e1 CHANNEL2 (write_square_wave_period (channel (sound e1) CHANNEL2))
         in if trigger then Some (trigger_nrx4_envelope e2 CHANNEL2) else Some e2)
      else if ad = 0xa then
        (let ch = (channel (sound e) CHANNEL3)\<lparr>dac_enabled := DECODE_BOOL v 7\<rparr>
         in if \<not> dac_enabled ch
            then Some (set_wave (set_channel e CHANNEL3 (ch\<lparr>status := False\<rparr>))
                         ((wave (sound e))\<lparr>playing := False\<rparr>))
            else Some (set_channel e CHANNEL3 ch))
      else if ad = 0xb then
        Some (set_channel e CHANNEL3
                ((channel (sound e) CHANNEL3)\<lparr>length_ctr := NR31_MAX_LENGTH - ucast v\<rparr>))
      else if ad = 0xc then
        Some (set_wave e ((wave (sound e))\<lparr>Wave.volume := ucast (DECODE v 6 5)\<rparr>))
      else if ad = 0xd then Some (write_wave_period (write_nrx3_reg e CHANNEL3 v) CHANNEL3)
      else if ad = 0xe then
        (let (trigger, e1) = write_nrx4_reg e CHANNEL3 v NR31_MAX_LENGTH;
             e2 = write_wave_period e1 CHANNEL3
         in if trigger then trigger_nr34_reg e2 CHANNEL3 else Some e2)
      else if ad = 0x10 then Some (write_nrx1_reg e CHANNEL4 v)
      else if ad = 0x11 then Some (write_nrx2_reg e CHANNEL4 v)
      else if ad = 0x12 then
        Some (write_noise_period
                (set_noise e ((noise (sound e))
                   \<lparr>clock_shift := ucast (DECODE v 7 4), lfsr_width := DECODE v 3 3,
                    divisor := ucast (DECODE v 2 0)\<rparr>)))
      else if ad = 0x13 then
        (let (trigger, e1) = write_nrx4_reg e CHANNEL4 v NRX1_MAX_LENGTH
         in if trigger
            then Some (trigger_nr44_reg
                         (trigger_nrx4_envelope (write_noise_period e1) CHANNEL4) CHANNEL4)
            else Some e1)
      else if ad = 0x14 then
        Some (e\<lparr>sound := (sound e)
               \<lparr>so2_output := (so2_output (sound e))(VIN := DECODE_BOOL v 7),
                so2_volume := DECODE v 6 4,
                so1_output := (so1_output (sound e))(VIN := DECODE_BOOL v 3),
                so1_volume := DECODE v 2 0\<rparr>\<rparr>)
      else if ad = 0x15 then
        Some (e\<lparr>sound := (sound e)
               \<lparr>so2_output := (so2_output (sound e))
                  (SOUND4 := DECODE_BOOL v 7, SOUND3 := DECODE_BOOL v 6,
                   SOUND2 := DECODE_BOOL v 5, SOUND1 := DECODE_BOOL v 4),
                so1_output := (so1_output (sound e))
                  (SOUND4 := DECODE_BOOL v 3, SOUND3 := DECODE_BOOL v 2,
                   SOUND2 := DECODE_BOOL v 1, SOUND1 := DECODE_BOOL v 0)\<rparr>\<rparr>)
      else Some e)"

text \<open>\<^verbatim>\<open>write_apu\<close> calls itself from the loop of the \<^verbatim>\<open>APU_NR52_ADDR\<close> case, which
  writes 0 to every other register when the APU is powered down; \<open>write_apu_power_down\<close>
  is that loop, from index \<open>i\<close> on.\<close>

function write_apu :: "Emulator \<Rightarrow> MaskedAddress \<Rightarrow> u8 \<Rightarrow> Emulator option"
  and write_apu_power_down :: "Emulator \<Rightarrow> nat \<Rightarrow> Emulator option" where
  "write_apu e ad v =
     (if \<not> Sound.enabled (sound e) \<and>
         \<not> (ad = 0x1 \<or> ad = 0x6 \<or> ad = 0xb \<or> ad = 0x10) \<and> ad \<noteq> 0x16
      then Some e
      else if ad = 0x16 then
        (let was_enabled = Sound.enabled (sound e);
             is_enabled = DECODE_BOOL v 7
         in if was_enabled \<and> \<not> is_enabled then
              Option.bind (write_apu_power_down e 0)
                (\<lambda>e1. Some (e1\<lparr>sound := (sound e1)\<lparr>Sound.enabled := is_enabled\<rparr>\<rparr>))
            else if \<not> was_enabled \<and> is_enabled then
              Some (e\<lparr>sound := (sound e)\<lparr>Sound.frame := 7, Sound.enabled := is_enabled\<rparr>\<rparr>)
            else Some (e\<lparr>sound := (sound e)\<lparr>Sound.enabled := is_enabled\<rparr>\<rparr>))
      else write_apu_reg e ad v)"
| "write_apu_power_down e i =
     (if i < APU_REG_COUNT then
        (if i = 0x16 then write_apu_power_down e (i + 1)
         else Option.bind (write_apu e (of_nat i) 0) (\<lambda>e1. write_apu_power_down e1 (i + 1)))
      else Some e)"
  by pat_completeness auto
termination
  apply (relation "measures [\<lambda>p. case p of Inl (e, ad, v) \<Rightarrow> (if ad = 0x16 then 2 else 0)
                                        | Inr (e, i) \<Rightarrow> 1,
                         \<lambda>p. case p of Inl (e, ad, v) \<Rightarrow> 0 | Inr (e, i) \<Rightarrow> APU_REG_COUNT - i]")
  apply (auto simp: APU_REG_COUNT_def)
  apply (simp_all add: word_unat_eq_iff unat_of_nat)
  done

declare write_apu.simps [simp del] write_apu_power_down.simps [simp del]

definition write_wave_ram :: "Emulator \<Rightarrow> MaskedAddress \<Rightarrow> u8 \<Rightarrow> Emulator option" where
  "write_wave_ram e ad v =
     (let w = wave (sound e) in
      if status (channel (sound e) CHANNEL3) then
        (case is_concurrent_wave_ram_access e 0 of
           Some k \<Rightarrow> do {
             r \<leftarrow> store_array (Wave.ram w) WAVE_RAM_SIZE
                    (unat (drop_bit 1 (WaveSample.position (Wave.sample w k)))) v;
             Some (set_wave e (w\<lparr>Wave.ram := r\<rparr>))
           }
         | None \<Rightarrow> Some e)
      else do {
        r \<leftarrow> store_array (Wave.ram w) WAVE_RAM_SIZE (unat ad) v;
        Some (set_wave e (w\<lparr>Wave.ram := r\<rparr>))
      })"

definition write_u8 :: "Emulator \<Rightarrow> Address \<Rightarrow> u8 \<Rightarrow> Emulator option" where
  "write_u8 e a v =
     (let pair = map_address a in
      if \<not> is_dma_access_ok e pair then Some e
      else
        (case type pair of
           MEMORY_MAP_ROM \<Rightarrow> call_write_rom e (addr pair) v
         | MEMORY_MAP_ROM_BANK_SWITCH \<Rightarrow> call_write_rom e (addr pair + 0x4000) v
         | MEMORY_MAP_VRAM \<Rightarrow> write_vram e (addr pair) v
         | MEMORY_MAP_EXTERNAL_RAM \<Rightarrow> call_write_external_ram e (addr pair) v
         | MEMORY_MAP_WORK_RAM \<Rightarrow> do {
             d \<leftarrow> store_array (WorkRam.data (ram e)) WORK_RAM_MAX_SIZE (unat (addr pair)) v;
             Some (e\<lparr>ram := (ram e)\<lparr>WorkRam.data := d\<rparr>\<rparr>)
           }
         | MEMORY_MAP_WORK_RAM_BANK_SWITCH \<Rightarrow> gb_write_work_ram_bank_switch e (addr pair) v
         | MEMORY_MAP_OAM \<Rightarrow> write_oam e (addr pair) v
         | MEMORY_MAP_UNUSED \<Rightarrow> Some e
         | MEMORY_MAP_IO \<Rightarrow> Some (write_io e (addr pair) v)
         | MEMORY_MAP_APU \<Rightarrow> write_apu e (addr pair) v
         | MEMORY_MAP_WAVE_RAM \<Rightarrow> write_wave_ram e (addr pair) v
         | MEMORY_MAP_HIGH_RAM \<Rightarrow> do {
             d \<leftarrow> store_array (hram e) HIGH_RAM_SIZE (unat (addr pair)) v;
             Some (e\<lparr>hram := d\<rparr>)
           }))"

definition write_u16 :: "Emulator \<Rightarrow> Address \<Rightarrow> u16 \<Rightarrow> Emulator option" where
  "write_u16 e a v = do {
     e1 \<leftarrow> write_u8 e a (ucast v);
     write_u8 e1 (a + 1) (ucast (drop_bit 8 v))
   }"

section \<open>DMA, LCD and timer updates\<close>

text \<open>\<^verbatim>\<open>VALUE_WRAPPED(X, MAX)\<close> subtracts \<^verbatim>\<open>MAX\<close> from \<^verbatim>\<open>X\<close> when \<^verbatim>\<open>X >= MAX\<close>
  and yields whether it did.\<close>

definition VALUE_WRAPPED :: "'a::len word \<Rightarrow> 'a word \<Rightarrow> bool \<times> 'a word" where
  "VALUE_WRAPPED v m = (if v \<ge> m then (True, v - m) else (False, v))"

definition OAM_TRANSFER_SIZE :: u8 where "OAM_TRANSFER_SIZE = 0xa0"
definition DMA_CYCLES :: u32 where "DMA_CYCLES = 648"
definition LINE_CYCLES :: u32 where "LINE_CYCLES = 456"
definition HBLANK_CYCLES :: u32 where "HBLANK_CYCLES = 204"
definition USING_OAM_CYCLES :: u32 where "USING_OAM_CYCLES = 80"
definition USING_OAM_VRAM_CYCLES :: u32 where "USING_OAM_VRAM_CYCLES = 172"
definition SCREEN_HEIGHT :: u8 where "SCREEN_HEIGHT = 144"
definition SCREEN_HEIGHT_WITH_VBLANK :: u8 where "SCREEN_HEIGHT_WITH_VBLANK = 154"
definition WINDOW_MAX_X :: u8 where "WINDOW_MAX_X = 166"
definition INTERRUPT_VBLANK_MASK :: u8 where "INTERRUPT_VBLANK_MASK = 0x01"
definition INTERRUPT_LCD_STAT_MASK :: u8 where "INTERRUPT_LCD_STAT_MASK = 0x02"
definition INTERRUPT_TIMER_MASK :: u8 where "INTERRUPT_TIMER_MASK = 0x04"
definition INTERRUPT_SERIAL_MASK :: u8 where "INTERRUPT_SERIAL_MASK = 0x08"
definition INTERRUPT_JOYPAD_MASK :: u8 where "INTERRUPT_JOYPAD_MASK = 0x10"

text \<open>The statement \<^verbatim>\<open>e->interrupts.IF |= m\<close>.\<close>

definition raise_IF :: "Emulator \<Rightarrow> u8 \<Rightarrow> Emulator" where
  "raise_IF e m = e\<lparr>interrupts := (interrupts e)\<lparr>IF := IF (interrupts e) OR m\<rparr>\<rparr>"

text \<open>The loop of \<^verbatim>\<open>update_dma_cycles\<close>, from its counter \<open>n\<close> on.\<close>

function update_dma_loop :: "Emulator \<Rightarrow> nat \<Rightarrow> nat \<Rightarrow> Emulator option" where
  "update_dma_loop e n cyc =
     (if n < cyc \<and> addr_offset (dma e) < OAM_TRANSFER_SIZE then do {
        let pair = (source (dma e))\<lparr>addr := addr (source (dma e)) + ucast (addr_offset (dma e))\<rparr>;
        v \<leftarrow> read_u8_no_dma_check e pair;
        e1 \<leftarrow> write_oam_no_mode_check e (ucast (addr_offset (dma e))) v;
        update_dma_loop (e1\<lparr>dma := (dma e1)\<lparr>addr_offset := addr_offset (dma e1) + 1\<rparr>\<rparr>)
          (n + 4) cyc
      } else Some e)"
  by pat_completeness auto
termination
  by (relation "measure (\<lambda>(e, n, cyc). cyc - n)") auto

declare update_dma_loop.simps [simp del]

definition update_dma_cycles :: "Emulator \<Rightarrow> u8 \<Rightarrow> Emulator option" where
  "update_dma_cycles e cyc =
     (if \<not> active (dma e) then Some e
      else do {
        e1 \<leftarrow> (if addr_offset (dma e) < OAM_TRANSFER_SIZE
               then update_dma_loop e 0 (unat cyc) else Some e);
        let (wrapped, c) = VALUE_WRAPPED (DMA.cycles (dma e1) + ucast cyc) DMA_CYCLES;
        let e2 = e1\<lparr>dma := (dma e1)\<lparr>DMA.cycles := c\<rparr>\<rparr>;
        if wrapped then do {
          c_assert (addr_offset (dma e2) = OAM_TRANSFER_SIZE);
          Some (e2\<lparr>dma := (dma e2)\<lparr>active := False\<rparr>\<rparr>)
        } else Some e2
      })"

text \<open>\<^verbatim>\<open>render_line\<close> writes one line of pixels into the frame buffer, which is not part
  of the state of the model. Its effects on the rest of the state are the assertion on
  its argument and the increment of \<^verbatim>\<open>lcd.win_y\<close> when the window is drawn on the
  line.\<close>

definition render_line :: "Emulator \<Rightarrow> u8 \<Rightarrow> Emulator option" where
  "render_line e line_y = do {
     c_assert (line_y < SCREEN_HEIGHT);
     if \<not> display (lcdc (lcd e)) then Some e
     else if window_display (lcdc (lcd e)) \<and> WX (lcd e) \<le> WINDOW_MAX_X \<and>
             line_y \<ge> frame_WY (lcd e) \<and> \<not> disable_window (config e)
       then Some (e\<lparr>lcd := (lcd e)\<lparr>win_y := win_y (lcd e) + 1\<rparr>\<rparr>)
     else Some e
   }"

definition set_lcd_mode :: "Emulator \<Rightarrow> LCDMode \<Rightarrow> Emulator" where
  "set_lcd_mode e m = e\<lparr>lcd := (lcd e)\<lparr>stat := (stat (lcd e))\<lparr>mode := m\<rparr>\<rparr>\<rparr>"

definition update_lcd_cycles :: "Emulator \<Rightarrow> u8 \<Rightarrow> Emulator option" where
  "update_lcd_cycles e0 cyc = do {
     let e = e0\<lparr>lcd := (lcd e0)\<lparr>LCD.cycles := LCD.cycles (lcd e0) + ucast cyc\<rparr>\<rparr>;
     if display (lcdc (lcd e)) then do {
       (new_line_edge, e1) \<leftarrow>
         (case mode (stat (lcd e)) of
            LCD_MODE_USING_OAM \<Rightarrow>
              (let (wrapped, c) = VALUE_WRAPPED (LCD.cycles (lcd e)) USING_OAM_CYCLES in
               if wrapped then do {
                 er \<leftarrow> render_line (e\<lparr>lcd := (lcd e)\<lparr>LCD.cycles := c\<rparr>\<rparr>) (LY (lcd e));
                 Some (False, set_lcd_mode er LCD_MODE_USING_OAM_VRAM)
               } else Some (False, e))
          | LCD_MODE_USING_OAM_VRAM \<Rightarrow>
              (let (wrapped, c) = VALUE_WRAPPED (LCD.cycles (lcd e)) USING_OAM_VRAM_CYCLES in
               if wrapped then
                 (let eh = set_lcd_mode (e\<lparr>lcd := (lcd e)\<lparr>LCD.cycles := c\<rparr>\<rparr>) LCD_MODE_HBLANK
                  in Some (False, if hblank_intr (stat (lcd eh))
                                  then raise_IF eh INTERRUPT_LCD_STAT_MASK else eh))
               else Some (False, e))
          | LCD_MODE_HBLANK \<Rightarrow>
              (let (wrapped, c) = VALUE_WRAPPED (LCD.cycles (lcd e)) HBLANK_CYCLES in
               if wrapped then
                 (let el = e\<lparr>lcd := (lcd e)\<lparr>LCD.cycles := c, LY := LY (lcd e) + 1\<rparr>\<rparr>
                  in if LY (lcd el) = SCREEN_HEIGHT then
                       (let ev = raise_IF (set_lcd_mode el LCD_MODE_VBLANK) INTERRUPT_VBLANK_MASK
                        in Some (True, if vblank_intr (stat (lcd ev))
                                       then raise_IF ev INTERRUPT_LCD_STAT_MASK else ev))
                     else
                       (let eo = set_lcd_mode el LCD_MODE_USING_OAM
                        in Some (True, if using_oam_intr (stat (lcd eo))
                                       then raise_IF eo INTERRUPT_LCD_STAT_MASK else eo)))
               else Some (False, e))
          | LCD_MODE_VBLANK \<Rightarrow>
              (let (wrapped, c) = VALUE_WRAPPED (LCD.cycles (lcd e)) LINE_CYCLES in
               if wrapped then
                 (let (ly_wrapped, ly) = VALUE_WRAPPED (LY (lcd e) + 1) SCREEN_HEIGHT_WITH_VBLANK;
                      el = e\<lparr>lcd := (lcd e)\<lparr>LCD.cycles := c, LY := ly\<rparr>\<rparr>
                  in if ly_wrapped then
                       (let ef = set_lcd_mode
                                   (el\<lparr>lcd := (lcd el)\<lparr>win_y := 0, frame_WY := WY (lcd el),
                                                       LCD.frame := LCD.frame (lcd el) + 1,
                                                       new_frame_edge := True\<rparr>\<rparr>)
                                   LCD_MODE_USING_OAM
                        in Some (True, if using_oam_intr (stat (lcd ef))
                                       then raise_IF ef INTERRUPT_LCD_STAT_MASK else ef))
                     else Some (True, el))
               else Some (False, e)));
       Some (if new_line_edge \<and> y_compare_intr (stat (lcd e1)) \<and> LY (lcd e1) = LYC (lcd e1)
             then raise_IF e1 INTERRUPT_LCD_STAT_MASK else e1)
     } else
       (let (wrapped, c) = VALUE_WRAPPED (LCD.cycles (lcd e)) LINE_CYCLES in
        if wrapped then
          (let (ly_wrapped, fly) = VALUE_WRAPPED (fake_LY (lcd e) + 1) SCREEN_HEIGHT_WITH_VBLANK;
               el = e\<lparr>lcd := (lcd e)\<lparr>LCD.cycles := c, fake_LY := fly\<rparr>\<rparr>;
               ef = (if ly_wrapped
                     then el\<lparr>lcd := (lcd el)\<lparr>new_frame_edge := True,
                                               LCD.frame := LCD.frame (lcd el) + 1\<rparr>\<rparr>
                     else el)
           in if fake_LY (lcd ef) < SCREEN_HEIGHT then render_line ef (fake_LY (lcd ef))
              else Some ef)
        else Some e)
   }"

text \<open>One iteration of the loop of \<^verbatim>\<open>update_timer_cycles\<close> (one machine cycle), and
  the loop from its counter \<open>i\<close> on.\<close>

definition update_timer_step :: "Emulator \<Rightarrow> Emulator" where
  "update_timer_step e =
     (let e1 =
        (if on (Emulator.timer e) \<and> tima_overflow (Emulator.timer e) then
           raise_IF (e\<lparr>Emulator.timer := (Emulator.timer e)
                        \<lparr>tima_overflow := False, TIMA := TMA (Emulator.timer e)\<rparr>\<rparr>)
             INTERRUPT_TIMER_MASK
         else e)
      in write_div_counter e1 (div_counter (Emulator.timer e1) + 4))"

function update_timer_loop :: "Emulator \<Rightarrow> nat \<Rightarrow> nat \<Rightarrow> Emulator" where
  "update_timer_loop e i cyc =
     (if i < cyc then update_timer_loop (update_timer_step e) (i + 4) cyc else e)"
  by pat_completeness auto
termination
  by (relation "measure (\<lambda>(e, i, cyc). cyc - i)") auto

declare update_timer_loop.simps [simp del]

definition update_timer_cycles :: "Emulator \<Rightarrow> u8 \<Rightarrow> Emulator" where
  "update_timer_cycles e cyc = update_timer_loop e 0 (unat cyc)"

section \<open>APU update\<close>

text \<open>The functions below take the pointers \<^verbatim>\<open>struct Channel*\<close>, \<^verbatim>\<open>struct Sweep*\<close>, ...
  of the C code as values and return the updated ones.\<close>

definition APU_CYCLES :: u32 where "APU_CYCLES = 2"
definition FRAME_SEQUENCER_CYCLES :: u32 where "FRAME_SEQUENCER_CYCLES = 8192"
definition FRAME_SEQUENCER_COUNT :: u8 where "FRAME_SEQUENCER_COUNT = 8"
definition DUTY_CYCLE_COUNT :: u8 where "DUTY_CYCLE_COUNT = 8"
definition WAVE_SAMPLE_COUNT :: u8 where "WAVE_SAMPLE_COUNT = 32"
definition NOISE_MAX_CLOCK_SHIFT :: "4 word" where "NOISE_MAX_CLOCK_SHIFT = 13"

definition update_channel_sweep :: "Channel \<Rightarrow> Sweep \<Rightarrow> Channel \<times> Sweep" where
  "update_channel_sweep ch sw =
     (if \<not> Sweep.enabled sw then (ch, sw)
      else
        (let p = Sweep.period sw;
             sw1 = sw\<lparr>Sweep.timer := Sweep.timer sw - 1\<rparr>
         in if Sweep.timer sw1 = 0 then
              (if p \<noteq> 0 then
                 (let sw2 = sw1\<lparr>Sweep.timer := p\<rparr>;
                      (new_frequency, sw3) = calculate_sweep_frequency sw2
                  in if new_frequency > SOUND_MAX_FREQUENCY then (ch\<lparr>status := False\<rparr>, sw3)
                     else
                       (let (ch4, sw4) =
                              (if shift sw3 \<noteq> 0
                               then (write_square_wave_period
                                       (ch\<lparr>Channel.frequency := new_frequency\<rparr>),
                                     sw3\<lparr>Sweep.frequency := new_frequency\<rparr>)
                               else (ch, sw3));
                            (f2, sw5) = calculate_sweep_frequency sw4
                        in if f2 > SOUND_MAX_FREQUENCY then (ch4\<lparr>status := False\<rparr>, sw5)
                           else (ch4, sw5)))
               else (ch, sw1\<lparr>Sweep.timer := SWEEP_MAX_PERIOD\<rparr>))
            else (ch, sw1)))"

definition duty_table :: "u8 list list" where
  "duty_table =
     [[0, 0, 0, 0, 0, 0, 0, 1],
      [1, 0, 0, 0, 0, 0, 0, 1],
      [1, 0, 0, 0, 0, 1, 1, 1],
      [0, 1, 1, 1, 1, 1, 1, 0]]"

definition update_square_wave :: "SquareWave \<Rightarrow> (u8 \<times> SquareWave) option" where
  "update_square_wave w = do {
     w1 \<leftarrow>
       (if SquareWave.cycles w \<le> APU_CYCLES then do {
          let (wrapped, p) = VALUE_WRAPPED (SquareWave.position w + 1) DUTY_CYCLE_COUNT;
          c_assert (unat p < 8);
          Some (w\<lparr>SquareWave.cycles := SquareWave.cycles w + SquareWave.period w,
                  SquareWave.position := p,
                  SquareWave.sample := duty_table ! unat (duty w) ! unat p\<rparr>)
        } else Some w);
     Some (SquareWave.sample w1, w1\<lparr>SquareWave.cycles := SquareWave.cycles w1 - APU_CYCLES\<rparr>)
   }"

definition update_channel_length :: "Channel \<Rightarrow> Channel" where
  "update_channel_length ch =
     (if length_enabled ch \<and> length_ctr ch > 0 then
        (let ch1 = ch\<lparr>length_ctr := length_ctr ch - 1\<rparr>
         in if length_ctr ch1 = 0 then ch1\<lparr>status := False\<rparr> else ch1)
      else ch)"

definition update_channel_envelope :: "Channel \<Rightarrow> Channel" where
  "update_channel_envelope ch =
     (let env = envelope ch in
      if Envelope.period env \<noteq> 0 then
        (if automatic env then
           (let env1 = env\<lparr>Envelope.timer := Envelope.timer env - 1\<rparr>
            in if Envelope.timer env1 = 0 then
                 (let env2 = env1\<lparr>Envelope.timer := ucast (Envelope.period env1)\<rparr>
                  in if Envelope.direction env2 = 0 then
                       (if Envelope.volume env2 > 0
                        then ch\<lparr>envelope := env2\<lparr>Envelope.volume := Envelope.volume env2 - 1\<rparr>\<rparr>
                        else ch\<lparr>envelope := env2\<lparr>automatic := False\<rparr>\<rparr>)
                     else
                       (if Envelope.volume env2 < ENVELOPE_MAX_VOLUME
                        then ch\<lparr>envelope := env2\<lparr>Envelope.volume := Envelope.volume env2 + 1\<rparr>\<rparr>
                        else ch\<lparr>envelope := env2\<lparr>automatic := False\<rparr>\<rparr>))
               else ch\<lparr>envelope := env1\<rparr>)
         else ch)
      else ch\<lparr>envelope := env\<lparr>Envelope.timer := ENVELOPE_MAX_PERIOD\<rparr>\<rparr>)"

definition update_wave :: "u32 \<Rightarrow> Wave \<Rightarrow> (u8 \<times> Wave) option" where
  "update_wave sound_cycles w = do {
     w1 \<leftarrow>
       (if Wave.cycles w \<le> APU_CYCLES then do {
          let c = Wave.cycles w + Wave.period w;
          let (wrapped, p) = VALUE_WRAPPED (Wave.position w + 1) WAVE_SAMPLE_COUNT;
          b \<leftarrow> index_array (Wave.ram w) WAVE_RAM_SIZE (unat (drop_bit 1 p));
          let smp = \<lparr>time = sound_cycles + c, WaveSample.position = p, byte = b,
                     WaveSample.data = (if p AND 1 = 0 then drop_bit 4 b else b AND 0x0f)\<rparr>;
          Some (w\<lparr>Wave.cycles := c, Wave.position := p,
                  Wave.sample := (Wave.sample w)(1 := Wave.sample w 0, 0 := smp)\<rparr>)
        } else Some w);
     Some (WaveSample.data (Wave.sample w1 0), w1\<lparr>Wave.cycles := Wave.cycles w1 - APU_CYCLES\<rparr>)
   }"

definition update_noise :: "Noise \<Rightarrow> u8 \<times> Noise" where
  "update_noise nz =
     (let nz1 =
        (if clock_shift nz \<le> NOISE_MAX_CLOCK_SHIFT \<and> Noise.cycles nz \<le> APU_CYCLES then
           (let b = (lfsr nz XOR drop_bit 1 (lfsr nz)) AND 1;
                l = (if lfsr_width nz = 1
                     then (drop_bit 1 (lfsr nz) AND NOT 0x40) OR push_bit 6 b
                     else (drop_bit 1 (lfsr nz) AND NOT 0x4000) OR push_bit 14 b)
            in nz\<lparr>Noise.cycles := Noise.cycles nz + Noise.period nz, lfsr := l,
                  Noise.sample := ucast (NOT l AND 1)\<rparr>)
         else nz)
      in (Noise.sample nz1, nz1\<lparr>Noise.cycles := Noise.cycles nz1 - APU_CYCLES\<rparr>))"

definition channelx_sample :: "Channel \<Rightarrow> u8 \<Rightarrow> u16 option" where
  "channelx_sample ch smp = do {
     c_assert (status ch);
     c_assert (smp < 2);
     c_assert (Envelope.volume (envelope ch) < 16);
     Some (push_bit 12 (ucast smp * ucast (Envelope.volume (envelope ch))))
   }"

definition wave_volume_shift :: "nat list" where
  "wave_volume_shift = [4, 0, 1, 2]"

definition channel3_sample :: "Channel \<Rightarrow> Wave \<Rightarrow> u8 \<Rightarrow> u16 option" where
  "channel3_sample ch w smp = do {
     c_assert (status ch);
     c_assert (smp < 16);
     c_assert (unat (Wave.volume w) < 4);
     Some (push_bit 12 (ucast (drop_bit (wave_volume_shift ! unat (Wave.volume w)) smp)))
   }"

definition write_sample :: "Sound \<Rightarrow> u16 \<Rightarrow> u16 \<Rightarrow> Sound option" where
  "write_sample s so1 so2 = do {
     c_assert (List.length (samples (buffer s)) + 2 \<le> capacity (buffer s));
     Some (s\<lparr>buffer := (buffer s)\<lparr>samples := samples (buffer s) @ [so1, so2]\<rparr>\<rparr>)
   }"

text \<open>The mixing of one channel's sample into the two outputs:
  \<^verbatim>\<open>if (sound->so1_output[c]) so1_mixed_sample += sample;\<close> and the same for \<^verbatim>\<open>so2\<close>.\<close>

definition mix_channel :: "Sound \<Rightarrow> nat \<Rightarrow> u16 \<Rightarrow> u32 \<times> u32 \<Rightarrow> u32 \<times> u32" where
  "mix_channel s c smp m =
     ((if so1_output s c then fst m + ucast smp else fst m),
      (if so2_output s c then snd m + ucast smp else snd m))"

text \<open>One iteration of the main loop of \<^verbatim>\<open>update_sound_cycles\<close>; \<open>dis\<close> is
  \<^verbatim>\<open>e->config.disable_sound\<close>.\<close>

definition update_sound_step :: "(nat \<Rightarrow> bool) \<Rightarrow> Sound \<Rightarrow> Sound option" where
  "update_sound_step dis s0 = do {
     let s1 = s0\<lparr>Sound.cycles := Sound.cycles s0 + APU_CYCLES\<rparr>;
     let (wrapped, fc) = VALUE_WRAPPED (frame_cycles s1 + APU_CYCLES) FRAME_SEQUENCER_CYCLES;
     let s2 =
       (if wrapped
        then s1\<lparr>frame_cycles := fc,
                Sound.frame := snd (VALUE_WRAPPED (Sound.frame s1 + 1) FRAME_SEQUENCER_COUNT)\<rparr>
        else s1\<lparr>frame_cycles := fc\<rparr>);
     let fr = Sound.frame s2;
     let do_length = (wrapped \<and> (fr = 0 \<or> fr = 2 \<or> fr = 4 \<or> fr = 6));
     let do_sweep = (wrapped \<and> (fr = 2 \<or> fr = 6));
     let do_envelope = (wrapped \<and> fr = 7);
     let smp0 = (0 :: u16);
     let mixed0 = (0 :: u32, 0 :: u32);

     \<comment> \<open>Channel 1\<close>
     (smp1, s3) \<leftarrow>
       (if status (channel s2 CHANNEL1) then do {
          let (ch, sw) = (if do_sweep then update_channel_sweep (channel s2 CHANNEL1) (sweep s2)
                          else (channel s2 CHANNEL1, sweep s2));
          (r, w) \<leftarrow> update_square_wave (square_wave ch);
          Some (ucast r, s2\<lparr>sweep := sw, channel := (channel s2)(CHANNEL1 := ch\<lparr>square_wave := w\<rparr>)\<rparr>)
        } else Some (smp0, s2));
     let s4 = (if do_length
               then s3\<lparr>channel := (channel s3)(CHANNEL1 := update_channel_length (channel s3 CHANNEL1))\<rparr>
               else s3);
     (smp2, mixed1, s5) \<leftarrow>
       (if status (channel s4 CHANNEL1) then do {
          let sa = (if do_envelope
                    then s4\<lparr>channel := (channel s4)(CHANNEL1 := update_channel_envelope (channel s4 CHANNEL1))\<rparr>
                    else s4);
          if \<not> dis CHANNEL1 then do {
            r \<leftarrow> channelx_sample (channel sa CHANNEL1) (ucast smp1);
            Some (r, mix_channel sa CHANNEL1 r mixed0, sa)
          } else Some (smp1, mixed0, sa)
        } else Some (smp1, mixed0, s4));

     \<comment> \<open>Channel 2\<close>
     (smp3, s6) \<leftarrow>
       (if status (channel s5 CHANNEL2) then do {
          (r, w) \<leftarrow> update_square_wave (square_wave (channel s5 CHANNEL2));
          Some (ucast r, s5\<lparr>channel := (channel s5)
                  (CHANNEL2 := (channel s5 CHANNEL2)\<lparr>square_wave := w\<rparr>)\<rparr>)
        } else Some (smp2, s5));
     let s7 = (if do_length
               then s6\<lparr>channel := (channel s6)(CHANNEL2 := update_channel_length (channel s6 CHANNEL2))\<rparr>
               else s6);
     (smp4, mixed2, s8) \<leftarrow>
       (if status (channel s7 CHANNEL2) then do {
          let sa = (if do_envelope
                    then s7\<lparr>channel := (channel s7)(CHANNEL2 := update_channel_envelope (channel s7 CHANNEL2))\<rparr>
                    else s7);
          r \<leftarrow> channelx_sample (channel sa CHANNEL2) (ucast smp3);
          Some (r, (if \<not> dis CHANNEL2 then mix_channel sa CHANNEL2 r mixed1 else mixed1), sa)
        } else Some (smp3, mixed1, s7));

     \<comment> \<open>Channel 3\<close>
     (smp5, s9) \<leftarrow>
       (if status (channel s8 CHANNEL3) then do {
          (r, w) \<leftarrow> update_wave (Sound.cycles s8) (wave s8);
          Some (ucast r, s8\<lparr>wave := w\<rparr>)
        } else Some (smp4, s8));
     let s10 = (if do_length
                then s9\<lparr>channel := (channel s9)(CHANNEL3 := update_channel_length (channel s9 CHANNEL3))\<rparr>
                else s9);
     (smp6, mixed3) \<leftarrow>
       (if status (channel s10 CHANNEL3) then do {
          r \<leftarrow> channel3_sample (channel s10 CHANNEL3) (wave s10) (ucast smp5);
          Some (r, (if \<not> dis CHANNEL3 then mix_channel s10 CHANNEL3 r mixed2 else mixed2))
        } else Some (smp5, mixed2));

     \<comment> \<open>Channel 4\<close>
     let s11 = (if do_length
                then s10\<lparr>channel := (channel s10)(CHANNEL4 := update_channel_length (channel s10 CHANNEL4))\<rparr>
                else s10);
     (mixed4, s12) \<leftarrow>
       (if status (channel s11 CHANNEL4) then do {
          let (r, nz) = update_noise (noise s11);
          let sa = s11\<lparr>noise := nz\<rparr>;
          let sb = (if do_envelope
                    then sa\<lparr>channel := (channel sa)(CHANNEL4 := update_channel_envelope (channel sa CHANNEL4))\<rparr>
                    else sa);
          r16 \<leftarrow> channelx_sample (channel sb CHANNEL4) r;
          Some ((if \<not> dis CHANNEL4 then mix_channel sb CHANNEL4 r16 mixed3 else mixed3), sb)
        } else Some (mixed3, s11));

     let so1 = (fst mixed4 * (ucast (so1_volume s12) + 1)) div ((7 + 1) * 4);
     let so2 = (snd mixed4 * (ucast (so2_volume s12) + 1)) div ((7 + 1) * 4);
     write_sample s12 (ucast so1) (ucast so2)
   }"

text \<open>The two loops of \<^verbatim>\<open>update_sound_cycles\<close>, from the counter \<open>i\<close> on. The counter
  is a \<^verbatim>\<open>uint8_t\<close> that advances by 2: for \<^verbatim>\<open>cycles = 255\<close> it wraps from 254 to 0 and the
  loop never ends, which \<open>update_sound_cycles\<close> reports as \<open>None\<close>.\<close>

function update_sound_off_loop :: "Sound \<Rightarrow> nat \<Rightarrow> nat \<Rightarrow> Sound option" where
  "update_sound_off_loop s i cyc =
     (if i < cyc then do { s1 \<leftarrow> write_sample s 0 0; update_sound_off_loop s1 (i + 2) cyc }
      else Some s)"
  by pat_completeness auto
termination
  by (relation "measure (\<lambda>(s, i, cyc). cyc - i)") auto

function update_sound_loop :: "(nat \<Rightarrow> bool) \<Rightarrow> Sound \<Rightarrow> nat \<Rightarrow> nat \<Rightarrow> Sound option" where
  "update_sound_loop dis s i cyc =
     (if i < cyc then do { s1 \<leftarrow> update_sound_step dis s; update_sound_loop dis s1 (i + 2) cyc }
      else Some s)"
  by pat_completeness auto
termination
  by (relation "measure (\<lambda>(dis, s, i, cyc). cyc - i)") auto

declare update_sound_off_loop.simps [simp del] update_sound_loop.simps [simp del]

definition update_sound_cycles :: "Emulator \<Rightarrow> u8 \<Rightarrow> Emulator option" where
  "update_sound_cycles e cyc =
     (if cyc = 255 then None
      else if \<not> Sound.enabled (sound e) then do {
        s \<leftarrow> update_sound_off_loop (sound e) 0 (unat cyc);
        Some (e\<lparr>sound := s\<rparr>)
      } else do {
        s \<leftarrow> update_sound_loop (disable_sound (config e))
               ((sound e)\<lparr>Sound.cycles := Emulator.cycles e\<rparr>) 0 (unat cyc);
        Some (e\<lparr>sound := s\<rparr>)
      })"

definition update_cycles :: "Emulator \<Rightarrow> u8 \<Rightarrow> Emulator option" where
  "update_cycles e cyc = do {
     e1 \<leftarrow> update_dma_cycles e cyc;
     e2 \<leftarrow> update_lcd_cycles e1 cyc;
     e3 \<leftarrow> update_sound_cycles (update_timer_cycles e2 cyc) cyc;
     Some (e3\<lparr>Emulator.cycles := Emulator.cycles e3 + ucast cyc\<rparr>)
   }"

section \<open>CPU\<close>

text \<open>The result of running a piece of the CPU code: it returns (\<open>Next\<close>), or the
  program stops (\<open>Exit\<close>: \<^verbatim>\<open>UNREACHABLE\<close>, a failed assertion, an array index out of
  range), or it reaches an opcode whose \<^verbatim>\<open>case\<close> is not embedded here
  (\<open>Not_Embedded\<close>). The \<^verbatim>\<open>switch\<close> of \<^verbatim>\<open>execute_instruction\<close> is embedded for the opcodes
  0x00 (NOP), 0x10 (STOP, not implemented), 0x3c (INC A), 0x3e (LD A,n), 0x76 (HALT),
  0xc3 (JP nn), 0xe0 (LDH (n),A), 0xf0 (LDH A,(n)), 0xf1 (POP AF), 0xf3 (DI),
  0xf5 (PUSH AF), 0xfb (EI) and the invalid opcodes; nothing is stated about the
  others.\<close>

datatype 'a exec = Next (the_next: 'a) | Exit | Not_Embedded

definition exec_of :: "'a option \<Rightarrow> 'a exec" where
  "exec_of r = (case r of None \<Rightarrow> Exit | Some v \<Rightarrow> Next v)"

definition s_opcode_bytes :: "u8 list" where
  "s_opcode_bytes =
     concat
      [[1, 3, 1, 1, 1, 1, 2, 1, 3, 1, 1, 1, 1, 1, 2, 1],
       [1, 3, 1, 1, 1, 1, 2, 1, 2, 1, 1, 1, 1, 1, 2, 1],
       [2, 3, 1, 1, 1, 1, 2, 1, 2, 1, 1, 1, 1, 1, 2, 1],
       [2, 3, 1, 1, 1, 1, 2, 1, 2, 1, 1, 1, 1, 1, 2, 1],
       [1, 1, 1, 1, 1, 1, 1, 1, 1, 1, 1, 1, 1, 1, 1, 1],
       [1, 1, 1, 1, 1, 1, 1, 1, 1, 1, 1, 1, 1, 1, 1, 1],
       [1, 1, 1, 1, 1, 1, 1, 1, 1, 1, 1, 1, 1, 1, 1, 1],
       [1, 1, 1, 1, 1, 1, 1, 1, 1, 1, 1, 1, 1, 1, 1, 1],
       [1, 1, 1, 1, 1, 1, 1, 1, 1, 1, 1, 1, 1, 1, 1, 1],
       [1, 1, 1, 1, 1, 1, 1, 1, 1, 1, 1, 1, 1, 1, 1, 1],
       [1, 1, 1, 1, 1, 1, 1, 1, 1, 1, 1, 1, 1, 1, 1, 1],
       [1, 1, 1, 1, 1, 1, 1, 1, 1, 1, 1, 1, 1, 1, 1, 1],
       [1, 1, 3, 3, 3, 1, 2, 1, 1, 1, 3, 2, 3, 3, 2, 1],
       [1, 1, 3, 0, 3, 1, 2, 1, 1, 1, 3, 0, 3, 0, 2, 1],
       [2, 1, 1, 0, 0, 1, 2, 1, 2, 1, 3, 0, 0, 0, 2, 1],
       [2, 1, 1, 1, 0, 1, 2, 1, 2, 1, 3, 1, 0, 0, 2, 1]]"

definition s_opcode_cycles :: "u8 list" where
  "s_opcode_cycles =
     concat
      [[4, 12,  8,  8,  4,  4,  8,  4, 20,  8,  8,  8,  4,  4,  8,  4],
       [0, 12,  8,  8,  4,  4,  8,  4, 12,  8,  8,  8,  4,  4,  8,  4],
       [8, 12,  8,  8,  4,  4,  8,  4,  8,  8,  8,  8,  4,  4,  8,  4],
       [8, 12,  8,  8,  8,  8, 12,  4,  8,  8,  8,  8,  4,  4,  8,  4],
       [4,  4,  4,  4,  4,  4,  8,  4,  4,  4,  4,  4,  4,  4,  8,  4],
       [4,  4,  4,  4,  4,  4,  8,  4,  4,  4,  4,  4,  4,  4,  8,  4],
       [4,  4,  4,  4,  4,  4,  8,  4,  4,  4,  4,  4,  4,  4,  8,  4],
       [8,  8,  8,  8,  8,  8,  0,  8,  4,  4,  4,  4,  4,  4,  8,  4],
       [4,  4,  4,  4,  4,  4,  8,  4,  4,  4,  4,  4,  4,  4,  8,  4],
       [4,  4,  4,  4,  4,  4,  8,  4,  4,  4,  4,  4,  4,  4,  8,  4],
       [4,  4,  4,  4,  4,  4,  8,  4,  4,  4,  4,  4,  4,  4,  8,  4],
       [4,  4,  4,  4,  4,  4,  8,  4,  4,  4,  4,  4,  4,  4,  8,  4],
       [8, 12, 12, 16, 12, 16,  8, 16,  8, 16, 12,  0, 12, 24,  8, 16],
       [8, 12, 12,  0, 12, 16,  8, 16,  8, 16, 12,  0, 12,  0,  8, 16],
       [12, 12,  8,  0,  0, 16,  8, 16, 16,  4, 16,  0,  0,  0,  8, 16],
       [12, 12,  8,  4,  0, 16,  8, 16, 12,  8, 16,  4,  0,  0,  8, 16]]"

definition set_reg :: "Emulator \<Rightarrow> (Registers \<Rightarrow> Registers) \<Rightarrow> Emulator" where
  "set_reg e f = e\<lparr>reg := f (reg e)\<rparr>"

definition set_intr :: "Emulator \<Rightarrow> (Interrupts \<Rightarrow> Interrupts) \<Rightarrow> Emulator" where
  "set_intr e f = e\<lparr>interrupts := f (interrupts e)\<rparr>"

text \<open>The macros \<^verbatim>\<open>READ_N\<close> and \<^verbatim>\<open>READ_NN\<close>.\<close>

definition READ_N :: "Emulator \<Rightarrow> u8 option" where
  "READ_N e = read_u8 e (PC (reg e) + 1)"

definition READ_NN :: "Emulator \<Rightarrow> u16 option" where
  "READ_NN e = read_u16 e (PC (reg e) + 1)"

text \<open>\<open>execute_opcode\<close> is the \<^verbatim>\<open>switch (opcode)\<close> of the branch for opcodes other than
  0xcb; it returns the state and \<^verbatim>\<open>new_pc\<close>.\<close>

definition execute_opcode :: "u8 \<Rightarrow> Emulator \<Rightarrow> Address \<Rightarrow> (Emulator \<times> Address) exec" where
  "execute_opcode opcode e new_pc =
     (if opcode = 0x00 then Next (e, new_pc)
      else if opcode = 0x10 then Exit
      else if opcode = 0x3c then
        (let u = Registers.A (reg e) + 1
         in Next (set_reg e (\<lambda>r. r\<lparr>Registers.A := u,
                    F := (F r)\<lparr>Z := (u = 0), N := False, Flags.H := (u AND 0xf = 0)\<rparr>\<rparr>),
                  new_pc))
      else if opcode = 0x3e then
        (case READ_N e of None \<Rightarrow> Exit
         | Some n \<Rightarrow> Next (set_reg e (\<lambda>r. r\<lparr>Registers.A := n\<rparr>), new_pc))
      else if opcode = 0x76 then
        Next (set_intr e (\<lambda>i. i\<lparr>halt := True, halt_DI := (\<not> IME i)\<rparr>), new_pc)
      else if opcode = 0xc3 then
        (case READ_NN e of None \<Rightarrow> Exit | Some nn \<Rightarrow> Next (e, nn))
      else if opcode = 0xe0 then
        (case READ_N e of None \<Rightarrow> Exit
         | Some n \<Rightarrow>
             (case write_u8 e (0xff00 + ucast n) (Registers.A (reg e)) of None \<Rightarrow> Exit
              | Some e1 \<Rightarrow> Next (e1, new_pc)))
      else if opcode = 0xf0 then
        (case READ_N e of None \<Rightarrow> Exit
         | Some n \<Rightarrow>
             (case read_u8 e (0xff00 + ucast n) of None \<Rightarrow> Exit
              | Some v \<Rightarrow> Next (set_reg e (\<lambda>r. r\<lparr>Registers.A := v\<rparr>), new_pc)))
      else if opcode = 0xf1 then
        (case read_u16 e (SP (reg e)) of None \<Rightarrow> Exit
         | Some af \<Rightarrow>
             Next (set_reg e (\<lambda>r. (set_af_reg r af)\<lparr>SP := SP r + 2\<rparr>), new_pc))
      else if opcode = 0xf3 then
        Next (set_intr e (\<lambda>i. i\<lparr>IME := False, enable := False\<rparr>), new_pc)
      else if opcode = 0xf5 then
        (let e1 = set_reg e (\<lambda>r. r\<lparr>SP := SP r - 2\<rparr>)
         in case write_u16 e1 (SP (reg e1)) (get_af_reg (reg e1)) of None \<Rightarrow> Exit
            | Some e2 \<Rightarrow> Next (e2, new_pc))
      else if opcode = 0xfb then
        Next (set_intr e (\<lambda>i. i\<lparr>enable := True\<rparr>), new_pc)
      else if opcode = 0xcb \<or> opcode = 0xd3 \<or> opcode = 0xdb \<or> opcode = 0xdd \<or>
              opcode = 0xe3 \<or> opcode = 0xe4 \<or> opcode = 0xeb \<or> opcode = 0xec \<or>
              opcode = 0xed \<or> opcode = 0xf4 \<or> opcode = 0xfc \<or> opcode = 0xfd
        then Exit
      else Not_Embedded)"

text \<open>The first two blocks of \<^verbatim>\<open>execute_instruction\<close>: a pending \<^verbatim>\<open>EI\<close> sets
  \<^verbatim>\<open>IME\<close>; after the opcode is read, a set \<^verbatim>\<open>halt_DI\<close> decrements \<^verbatim>\<open>PC\<close> (the HALT
  bug).\<close>

definition apply_pending_enable :: "Emulator \<Rightarrow> Emulator" where
  "apply_pending_enable e =
     (if enable (interrupts e)
      then set_intr e (\<lambda>i. i\<lparr>enable := False, IME := True\<rparr>) else e)"

definition apply_halt_bug :: "Emulator \<Rightarrow> Emulator" where
  "apply_halt_bug e =
     (if halt_DI (interrupts e)
      then set_intr (set_reg e (\<lambda>r. r\<lparr>PC := PC r - 1\<rparr>)) (\<lambda>i. i\<lparr>halt_DI := False\<rparr>)
      else e)"

text \<open>The opcode fetch of \<^verbatim>\<open>execute_instruction\<close>, which is the same for every opcode:
  \<^verbatim>\<open>opcode = read_u8(e, e->reg.PC)\<close>, the HALT-bug adjustment, and
  \<^verbatim>\<open>new_pc = e->reg.PC + s_opcode_bytes[opcode]\<close>. The result is the opcode, the state in
  which the opcode is executed, and \<^verbatim>\<open>new_pc\<close>, which is assigned to \<^verbatim>\<open>PC\<close> after the
  \<^verbatim>\<open>switch\<close> unless the opcode's case assigns another value to it (a jump).\<close>

definition fetch_opcode :: "Emulator \<Rightarrow> (u8 \<times> Emulator \<times> Address) option" where
  "fetch_opcode e =
     (case read_u8 e (PC (reg e)) of None \<Rightarrow> None
      | Some opcode \<Rightarrow>
          (let e1 = apply_halt_bug e
           in Some (opcode, e1, PC (reg e1) + ucast (s_opcode_bytes ! unat opcode))))"

definition execute_instruction :: "Emulator \<Rightarrow> Emulator exec" where
  "execute_instruction e0 =
     (let e = apply_pending_enable e0
      in if halt (interrupts e) then exec_of (update_cycles e 4)
         else
           (case read_u8 e (PC (reg e)) of None \<Rightarrow> Exit
            | Some opcode \<Rightarrow>
                (let e1 = apply_halt_bug e;
                     new_pc = PC (reg e1) + ucast (s_opcode_bytes ! unat opcode)
                 in if opcode = 0xcb then Not_Embedded
                    else
                      (case update_cycles e1 (s_opcode_cycles ! unat opcode) of None \<Rightarrow> Exit
                       | Some e2 \<Rightarrow>
                           (case execute_opcode opcode e2 new_pc of
                              Next (e3, pc) \<Rightarrow> Next (set_reg e3 (\<lambda>r. r\<lparr>PC := pc\<rparr>))
                            | Exit \<Rightarrow> Exit
                            | Not_Embedded \<Rightarrow> Not_Embedded)))))"

definition handle_interrupts :: "Emulator \<Rightarrow> Emulator option" where
  "handle_interrupts e =
     (if \<not> (IME (interrupts e) \<or> halt (interrupts e)) then Some e
      else
        (let pending = IF (interrupts e) AND IE (interrupts e) in
         if pending = 0 then Some e
         else
           (case
              (if pending AND INTERRUPT_VBLANK_MASK \<noteq> 0
                 then Some (0x40 :: Address, INTERRUPT_VBLANK_MASK)
               else if pending AND INTERRUPT_LCD_STAT_MASK \<noteq> 0
                 then Some (0x48, INTERRUPT_LCD_STAT_MASK)
               else if pending AND INTERRUPT_TIMER_MASK \<noteq> 0
                 then Some (0x50, INTERRUPT_TIMER_MASK)
               else if pending AND INTERRUPT_SERIAL_MASK \<noteq> 0
                 then Some (0x58, INTERRUPT_SERIAL_MASK)
               else if pending AND INTERRUPT_JOYPAD_MASK \<noteq> 0
                 then Some (0x60, INTERRUPT_JOYPAD_MASK)
               else None)
            of None \<Rightarrow> Some e
             | Some (vector, m) \<Rightarrow>
                 (if halt_DI (interrupts e)
                  then Some (set_intr e (\<lambda>i. i\<lparr>halt := False\<rparr>))
                  else do {
                    let e1 = set_intr e (\<lambda>i. i\<lparr>IF := IF i AND NOT m\<rparr>);
                    let new_pc = PC (reg e1);
                    let e2 = set_reg e1 (\<lambda>r. r\<lparr>SP := SP r - 2\<rparr>);
                    e3 \<leftarrow> write_u16 e2 (SP (reg e2)) new_pc;
                    Some (set_intr (set_reg e3 (\<lambda>r. r\<lparr>PC := vector\<rparr>))
                            (\<lambda>i. i\<lparr>IME := False, halt := False\<rparr>))
                  }))))"

definition step_emulator :: "Emulator \<Rightarrow> Emulator exec" where
  "step_emulator e =
     (case execute_instruction e of
        Next e1 \<Rightarrow> exec_of (handle_interrupts e1)
      | Exit \<Rightarrow> Exit
      | Not_Embedded \<Rightarrow> Not_Embedded)"

section \<open>Relations between states used in the properties\<close>

text \<open>\<open>same_cpu e e1\<close>: the state \<open>e1\<close> has the registers and the interrupt state of
  \<open>e\<close>, except that bits may have been added to \<^verbatim>\<open>IF\<close>.\<close>

definition same_cpu :: "Emulator \<Rightarrow> Emulator \<Rightarrow> bool" where
  "same_cpu e e1 \<longleftrightarrow>
     reg e1 = reg e \<and>
     IME (interrupts e1) = IME (interrupts e) \<and>
     IE (interrupts e1) = IE (interrupts e) \<and>
     enable (interrupts e1) = enable (interrupts e) \<and>
     halt (interrupts e1) = halt (interrupts e) \<and>
     halt_DI (interrupts e1) = halt_DI (interrupts e) \<and>
     IF (interrupts e) AND IF (interrupts e1) = IF (interrupts e)"


text \<open>\<open>idle_cycles e\<close>: the state after four cycles of \<open>update_cycles\<close> when no DMA is
  active and the LCD and the APU are off: the LCD line counter and the cycle counter
  advance, the timer makes one step, and one silent sample frame per two cycles is
  written to the sound buffer.\<close>

definition idle_cycles :: "Emulator \<Rightarrow> Emulator" where
  "idle_cycles e =
     (update_timer_step (e\<lparr>lcd := (lcd e)\<lparr>LCD.cycles := LCD.cycles (lcd e) + 4\<rparr>\<rparr>))
        \<lparr>sound := (sound e)\<lparr>buffer := (buffer (sound e))
                   \<lparr>samples := samples (buffer (sound e)) @ [0, 0, 0, 0]\<rparr>\<rparr>,
         Emulator.cycles := Emulator.cycles e + 4\<rparr>"

section \<open>Example states\<close>

text \<open>\<open>zero_emulator\<close> is the state that \<^verbatim>\<open>init_emulator\<close> has after
  \<^verbatim>\<open>ZERO_MEMORY\<close> and \<^verbatim>\<open>init_memory_map\<close> for a 32 KiB cartridge of type
  \<^verbatim>\<open>CARTRIDGE_TYPE_ROM_ONLY\<close> whose bytes are all zero (ROM bank 1, no external RAM),
  with room for 4096 values in the sound buffer. The concrete states of the
  examples below are updates of it.\<close>

definition zero_channel :: Channel where
  "zero_channel =
     \<lparr>square_wave = \<lparr>duty = 0, SquareWave.sample = 0, SquareWave.period = 0,
                     SquareWave.position = 0, SquareWave.cycles = 0\<rparr>,
      envelope = \<lparr>initial_volume = 0, Envelope.direction = 0, Envelope.period = 0,
                  Envelope.volume = 0, Envelope.timer = 0, automatic = False\<rparr>,
      Channel.frequency = 0, length_ctr = 0, length_enabled = False, dac_enabled = False,
      status = False\<rparr>"

definition zero_sound :: Sound where
  "zero_sound =
     \<lparr>so2_volume = 0, so1_volume = 0, so2_output = (\<lambda>_. False), so1_output = (\<lambda>_. False),
      Sound.enabled = False,
      sweep = \<lparr>Sweep.period = 0, Sweep.direction = 0, shift = 0, Sweep.frequency = 0,
               Sweep.timer = 0, Sweep.enabled = False, calculated_subtract = False\<rparr>,
      wave = \<lparr>Wave.volume = 0, Wave.ram = (\<lambda>_. 0),
              Wave.sample = (\<lambda>_. \<lparr>time = 0, WaveSample.position = 0, byte = 0,
                                   WaveSample.data = 0\<rparr>),
              Wave.period = 0, Wave.position = 0, Wave.cycles = 0, playing = False\<rparr>,
      noise = \<lparr>clock_shift = 0, lfsr_width = 0, divisor = 0, Noise.sample = 0, lfsr = 0,
               Noise.period = 0, Noise.cycles = 0\<rparr>,
      channel = (\<lambda>_. zero_channel),
      Sound.frame = 0, frame_cycles = 0, Sound.cycles = 0,
      buffer = \<lparr>capacity = 4096, samples = []\<rparr>\<rparr>"

definition zero_lcd :: LCD where
  "zero_lcd =
     \<lparr>lcdc = \<lparr>display = False, window_tile_map_select = 0, window_display = False,
              bg_tile_data_select = 0, bg_tile_map_select = 0, obj_size = 0,
              obj_display = False, bg_display = False\<rparr>,
      stat = \<lparr>y_compare_intr = False, using_oam_intr = False, vblank_intr = False,
              hblank_intr = False, mode = LCD_MODE_HBLANK\<rparr>,
      SCY = 0, SCX = 0, LY = 0, LYC = 0, WY = 0, WX = 0,
      bgp = \<lparr>color = (\<lambda>_. 0)\<rparr>,
      LCD.cycles = 0, LCD.frame = 0, fake_LY = 0, win_y = 0, frame_WY = 0,
      new_frame_edge = False\<rparr>"

definition zero_emulator :: Emulator where
  "zero_emulator =
     \<lparr>config = \<lparr>disable_sound = (\<lambda>_. False), disable_bg = False, disable_window = False,
                disable_obj = False\<rparr>,
      rom_data = \<lparr>RomData.data = (\<lambda>_. 0), RomData.size_bytes = 32768\<rparr>,
      memory_map = \<lparr>rom_bank = 1, ext_ram_bank = 0, ext_ram_enabled = False,
                    mbc1 = \<lparr>byte_2000_3fff = 0, byte_4000_5fff = 0,
                            bank_mode = BANK_MODE_ROM\<rparr>,
                    external_ram_fn = DUMMY_EXTERNAL_RAM, write_rom = ROM_ONLY_WRITE_ROM\<rparr>,
      reg = \<lparr>Registers.A = 0, Registers.B = 0, Registers.C = 0, D = 0, E = 0,
             Registers.H = 0, L = 0, SP = 0, PC = 0,
             F = \<lparr>Z = False, N = False, Flags.H = False, Flags.C = False\<rparr>\<rparr>,
      vram = \<lparr>VideoRam.tile = (\<lambda>_ _. 0), tile_map = (\<lambda>_ _. 0),
              VideoRam.data = (\<lambda>_. 0)\<rparr>,
      external_ram = \<lparr>ExternalRam.data = (\<lambda>_. 0), ExternalRam.size_bytes = 0,
                      battery_type = NO_BATTERY\<rparr>,
      ram = \<lparr>WorkRam.data = (\<lambda>_. 0), WorkRam.size_bytes = 0\<rparr>,
      interrupts = \<lparr>IME = False, IE = 0, IF = 0, enable = False, halt = False,
                    halt_DI = False\<rparr>,
      oam = \<lparr>objs = (\<lambda>_. \<lparr>obj_y = 0, obj_x = 0, Obj.tile = 0, byte3 = 0, priority = 0,
                            yflip = False, xflip = False, palette = 0\<rparr>),
             obp = (\<lambda>_. \<lparr>color = (\<lambda>_. 0)\<rparr>)\<rparr>,
      joypad = \<lparr>down = False, up = False, left = False, right = False, start = False,
                select = False, Joypad.B = False, Joypad.A = False, joypad_select = 0\<rparr>,
      serial = \<lparr>transfer_start = False, clock_speed = False, shift_clock = False\<rparr>,
      Emulator.timer = \<lparr>TIMA = 0, TMA = 0, clock_select = 0, div_counter = 0,
               tima_overflow = False, on = False\<rparr>,
      sound = zero_sound,
      lcd = zero_lcd,
      dma = \<lparr>active = False, source = \<lparr>type = MEMORY_MAP_ROM, addr = 0\<rparr>,
             addr_offset = 0, DMA.cycles = 0\<rparr>,
      hram = (\<lambda>_. 0),
      Emulator.cycles = 0\<rparr>"

text \<open>Channel 3 is playing, the APU is on, the wave position is 2 (byte 1 of Wave RAM) and
  the two retained samples were read at cycles 100 and 96; the emulator's cycle counter
  is 50 in \<open>wave_playing_state\<close> and 98 in \<open>wave_trigger_state\<close>.\<close>

definition wave_playing_state :: Emulator where
  "wave_playing_state =
     zero_emulator
       \<lparr>sound := zero_sound
          \<lparr>Sound.enabled := True,
           wave := (wave zero_sound)
             \<lparr>Wave.ram := (\<lambda>_. 0)(0 := 0x11, 1 := 0x22),
              Wave.sample :=
                (\<lambda>_. \<lparr>time = 96, WaveSample.position = 1, byte = 0x11, WaveSample.data = 1\<rparr>)
                (0 := \<lparr>time = 100, WaveSample.position = 2, byte = 0x22, WaveSample.data = 2\<rparr>),
              Wave.position := 2, playing := True\<rparr>,
           channel := (\<lambda>_. zero_channel)
             (CHANNEL3 := zero_channel\<lparr>dac_enabled := True, status := True\<rparr>)\<rparr>,
        Emulator.cycles := 50\<rparr>"

definition wave_trigger_state :: Emulator where
  "wave_trigger_state = wave_playing_state\<lparr>Emulator.cycles := 98\<rparr>"

text \<open>The timer is on with \<^verbatim>\<open>TAC\<close> clock select 1 (bit 3 of \<^verbatim>\<open>div_counter\<close>), \<^verbatim>\<open>TIMA\<close> is
  0xff, and \<^verbatim>\<open>div_counter\<close> is 0x0c: the next machine cycle clears bit 3.\<close>

definition timer_overflow_state :: Emulator where
  "timer_overflow_state =
     zero_emulator\<lparr>Emulator.timer :=
       \<lparr>TIMA = 0xff, TMA = 0x42, clock_select = 1, div_counter = 0x0c,
        tima_overflow = False, on = True\<rparr>\<rparr>"

text \<open>\<open>timer_overflow_state_1\<close> is the state of the timer one machine cycle later: \<^verbatim>\<open>TIMA\<close>
  has wrapped and its reload is waiting. \<open>timer_stopped_state\<close> is that state after the
  CPU has written 0 to \<^verbatim>\<open>TAC\<close> (0xff07), which turns the timer off.\<close>

definition timer_overflow_state_1 :: Emulator where
  "timer_overflow_state_1 =
     zero_emulator\<lparr>Emulator.timer :=
       \<lparr>TIMA = 0, TMA = 0x42, clock_select = 1, div_counter = 0x10,
        tima_overflow = True, on = True\<rparr>\<rparr>"

definition timer_stopped_state :: Emulator where
  "timer_stopped_state =
     zero_emulator\<lparr>Emulator.timer :=
       \<lparr>TIMA = 0, TMA = 0x42, clock_select = 0, div_counter = 0x10,
        tima_overflow = True, on = False\<rparr>\<rparr>"

text \<open>A program \<^verbatim>\<open>EI; DI\<close> at 0x100 with the V-blank interrupt enabled and requested and
  \<^verbatim>\<open>IME\<close> clear; \<open>ei_di_state_1\<close> and \<open>ei_di_state_2\<close> are the states after \<^verbatim>\<open>EI\<close> and after
  \<^verbatim>\<open>DI\<close>.\<close>

definition ei_di_state :: Emulator where
  "ei_di_state =
     zero_emulator
       \<lparr>rom_data := \<lparr>RomData.data = (\<lambda>_. 0)(0x100 := 0xfb, 0x101 := 0xf3),
                     RomData.size_bytes = 32768\<rparr>,
        reg := (reg zero_emulator)\<lparr>PC := 0x100\<rparr>,
        interrupts := (interrupts zero_emulator)\<lparr>IE := 0x01, IF := 0x01\<rparr>\<rparr>"

definition ei_di_state_1 :: Emulator where
  "ei_di_state_1 =
     ei_di_state
       \<lparr>lcd := (lcd ei_di_state)\<lparr>LCD.cycles := 4\<rparr>,
        Emulator.timer := (Emulator.timer ei_di_state)\<lparr>div_counter := 4\<rparr>,
        sound := (sound ei_di_state)\<lparr>buffer := \<lparr>capacity = 4096, samples = [0, 0, 0, 0]\<rparr>\<rparr>,
        Emulator.cycles := 4,
        interrupts := (interrupts ei_di_state)\<lparr>enable := True\<rparr>,
        reg := (reg ei_di_state)\<lparr>PC := 0x101\<rparr>\<rparr>"

definition ei_di_state_2 :: Emulator where
  "ei_di_state_2 =
     ei_di_state
       \<lparr>lcd := (lcd ei_di_state)\<lparr>LCD.cycles := 8\<rparr>,
        Emulator.timer := (Emulator.timer ei_di_state)\<lparr>div_counter := 8\<rparr>,
        sound := (sound ei_di_state)
          \<lparr>buffer := \<lparr>capacity = 4096, samples = [0, 0, 0, 0, 0, 0, 0, 0]\<rparr>\<rparr>,
        Emulator.cycles := 8,
        reg := (reg ei_di_state)\<lparr>PC := 0x102\<rparr>\<rparr>"










section \<open>Properties\<close>

subsection \<open>Bit fields\<close>

lemma ENCODE_BOOL_bit: "ENCODE_BOOL b n = (if b then push_bit n 1 else 0)"
  by (simp add: ENCODE_BOOL_def ENCODE_def BITS_MASK_def)

lemma DECODE_BOOL_bit: "DECODE_BOOL v n = bit v n"
  by (simp add: DECODE_BOOL_def DECODE_def BITS_MASK_def and_one_eq bit_iff_odd_drop_bit
      odd_iff_mod_2_eq_one)

subsection \<open>The packed flag register\<close>

lemma get_f_reg_low_nibble: "get_f_reg r AND 0x0f = 0"
  by (simp add: get_f_reg_def ENCODE_BOOL_bit bit.conj_disj_distrib2)

lemma get_af_reg_low_byte: "(ucast (get_af_reg r) :: u8) = get_f_reg r"
proof -
  have "(ucast (push_bit 8 (ucast (Registers.A r) :: u16)) :: u8) = 0"
    by (rule bit_word_eqI) (auto simp: bit_simps)
  moreover have "(ucast (ucast (get_f_reg r) :: u16) :: u8) = get_f_reg r"
    by (rule bit_word_eqI) (auto simp: bit_simps)
  ultimately show ?thesis
    by (simp add: get_af_reg_def unsigned_or_eq)
qed

text \<open>C9. Every read of the packed flag register yields a byte whose low nibble is zero:
  the value of \<open>get_f_reg\<close>, and the low byte of \<open>get_af_reg\<close> (the byte that
  \<^verbatim>\<open>PUSH AF\<close> stores at the lower stack address), for every register file.\<close>

theorem flag_register_low_nibble_zero:
  "get_f_reg r AND 0x0f = 0 \<and> (ucast (get_af_reg r) :: u8) AND 0x0f = 0"
  by (simp add: get_f_reg_low_nibble get_af_reg_low_byte)

subsection \<open>Address decoding\<close>

lemma unat_drop12: "unat (drop_bit 12 (a::u16)) = unat a div 4096"
  by (simp add: drop_bit_eq_div unat_div)

lemma unat_u16_bound: "unat (a::u16) < 65536"
  using unsigned_less[of a, where 'a=nat] by simp

lemma div4096: "(n div 4096 = k) = (k * 4096 \<le> n \<and> n < (k + 1) * 4096)" for n k :: nat
proof
  assume "n div 4096 = k"
  then show "k * 4096 \<le> n \<and> n < (k + 1) * 4096"
    using div_times_less_eq_dividend[of n 4096] dividend_less_div_times[of 4096 n] by auto
next
  assume "k * 4096 \<le> n \<and> n < (k + 1) * 4096"
  then show "n div 4096 = k" by (intro div_nat_eqI) (auto simp: algebra_simps)
qed

lemma nib_iff:
  "k < 16 \<Longrightarrow>
   (drop_bit 12 (a::u16) = of_nat k) = (k * 4096 \<le> unat a \<and> unat a < (k + 1) * 4096)"
  by (simp add: word_unat_eq_iff unat_drop12 unat_of_nat div4096)

lemmas nib_simps =
  nib_iff[of 0, simplified] nib_iff[of 1, simplified] nib_iff[of 2, simplified]
  nib_iff[of 3, simplified] nib_iff[of 4, simplified] nib_iff[of 5, simplified]
  nib_iff[of 6, simplified] nib_iff[of 7, simplified] nib_iff[of 8, simplified]
  nib_iff[of 9, simplified] nib_iff[of 10, simplified] nib_iff[of 11, simplified]
  nib_iff[of 12, simplified] nib_iff[of 13, simplified] nib_iff[of 14, simplified]
  nib_iff[of 15, simplified]

lemma map_address_type:
  "type (map_address a) =
     (if a \<le> 0x3fff then MEMORY_MAP_ROM
      else if a \<le> 0x7fff then MEMORY_MAP_ROM_BANK_SWITCH
      else if a \<le> 0x9fff then MEMORY_MAP_VRAM
      else if a \<le> 0xbfff then MEMORY_MAP_EXTERNAL_RAM
      else if a \<le> 0xcfff then MEMORY_MAP_WORK_RAM
      else if a \<le> 0xdfff then MEMORY_MAP_WORK_RAM_BANK_SWITCH
      else if a \<le> 0xefff then MEMORY_MAP_WORK_RAM
      else if a \<le> 0xfdff then MEMORY_MAP_WORK_RAM_BANK_SWITCH
      else if a \<le> 0xfe9f then MEMORY_MAP_OAM
      else if a \<le> 0xfeff then MEMORY_MAP_UNUSED
      else if a \<le> 0xff0f then MEMORY_MAP_IO
      else if a \<le> 0xff2f then MEMORY_MAP_APU
      else if a \<le> 0xff3f then MEMORY_MAP_WAVE_RAM
      else if a \<le> 0xff7f then MEMORY_MAP_IO
      else if a \<le> 0xfffe then MEMORY_MAP_HIGH_RAM
      else MEMORY_MAP_IO)"
proof -
  have b: "unat a < 65536" by (rule unat_u16_bound)
  show ?thesis
    unfolding map_address_def Let_def nib_simps word_le_nat_alt word_less_nat_alt
    using b by auto
qed

lemma map_address_high_ram:
  "type (map_address a) = MEMORY_MAP_HIGH_RAM \<longleftrightarrow> 0xff80 \<le> a \<and> a \<le> 0xfffe"
  unfolding map_address_type word_le_nat_alt by auto

lemma map_address_vram:
  "type (map_address a) = MEMORY_MAP_VRAM \<longleftrightarrow> 0x8000 \<le> a \<and> a \<le> 0x9fff"
  unfolding map_address_type word_le_nat_alt by auto

lemma map_address_is_oam:
  "type (map_address a) = MEMORY_MAP_OAM \<longleftrightarrow> 0xfe00 \<le> a \<and> a \<le> 0xfe9f"
  unfolding map_address_type word_le_nat_alt by auto

lemma map_address_external_ram:
  "type (map_address a) = MEMORY_MAP_EXTERNAL_RAM \<longleftrightarrow> 0xa000 \<le> a \<and> a \<le> 0xbfff"
  unfolding map_address_type word_le_nat_alt by auto

lemma map_address_unused:
  "type (map_address a) = MEMORY_MAP_UNUSED \<longleftrightarrow> 0xfea0 \<le> a \<and> a \<le> 0xfeff"
  unfolding map_address_type word_le_nat_alt by auto

lemma map_address_oam:
  assumes "a \<le> 0x9f"
  shows "map_address (0xfe00 + a) = \<lparr>type = MEMORY_MAP_OAM, addr = a\<rparr>"
proof -
  have a: "unat a \<le> 159" using assms by (simp add: word_le_nat_alt)
  have u: "unat (0xfe00 + a) = 65024 + unat a"
    using a by (simp add: unat_word_ariths)
  show ?thesis
    unfolding map_address_def Let_def nib_simps word_le_nat_alt word_less_nat_alt u
    using a by simp
qed

subsection \<open>MBC3 ROM bank selection\<close>

lemma mbc3_write_rom_bank:
  assumes "0x2000 \<le> a" "a \<le> 0x3fff"
  shows "mbc3_write_rom e a v =
         Some (e\<lparr>memory_map := (memory_map e)\<lparr>rom_bank := v AND 0x7f\<rparr>\<rparr>)"
proof -
  have "unat (drop_bit 13 a) = unat a div 8192" by (simp add: drop_bit_eq_div unat_div)
  moreover have "8192 \<le> unat a" "unat a \<le> 16383"
    using assms by (simp_all add: word_le_nat_alt)
  ultimately have "unat (drop_bit 13 a) = 1" by simp
  then have "drop_bit 13 a = 1" by (simp add: word_unat_eq_iff)
  then show ?thesis by (simp add: mbc3_write_rom_def)
qed

text \<open>C5. On an MBC3 cartridge a CPU write to 0x2000-0x3FFF sets the ROM bank to the low
  seven bits of the value (\<open>mbc3_write_rom_bank\<close>), and the claim adds that a value whose
  low seven bits are 0 selects bank 1. \<open>mbc3_write_rom\<close> stores the masked value as it is:
  with no DMA active, writing 0x00 to 0x2000 leaves ROM bank 0 selected, while
  \<open>mbc1_write_rom\<close> increments a zero bank.\<close>

theorem mbc3_bank_zero_not_promoted:
  "write_u8 (e\<lparr>memory_map := (memory_map e)\<lparr>write_rom := MBC3_WRITE_ROM\<rparr>,
               dma := (dma e)\<lparr>active := False\<rparr>\<rparr>) 0x2000 0x00 =
   Some (e\<lparr>memory_map := (memory_map e)\<lparr>write_rom := MBC3_WRITE_ROM, rom_bank := 0\<rparr>,
           dma := (dma e)\<lparr>active := False\<rparr>\<rparr>)"
  by (simp add: write_u8_def map_address_def is_dma_access_ok_def call_write_rom_def
      mbc3_write_rom_def)

subsection \<open>Reads from disabled and unused regions\<close>

text \<open>C6, as stated: every CPU read from 0xFEA0-0xFEFF returns 0xFF. In the state
  \<open>zero_emulator\<close> (no DMA active) the read of 0xFEA0 does not return 0xFF: the case
  \<^verbatim>\<open>MEMORY_MAP_UNUSED\<close> of \<open>read_u8_no_dma_check\<close> returns 0.\<close>

theorem unused_read_counterexample: "read_u8 zero_emulator 0xfea0 \<noteq> Some 0xff"
  by (simp add: read_u8_def Let_def map_address_type is_dma_access_ok_def
      read_u8_no_dma_check_def zero_emulator_def)

text \<open>C6, amended. A CPU read from external RAM while RAM is disabled, or from the unused
  region 0xFEA0-0xFEFF, never fails (the result is \<open>Some\<close>) and, being a function of the
  state, changes nothing. Its value is 0xFF when an active DMA blocks the access;
  otherwise it is 0xFF for disabled external RAM on a cartridge with RAM
  (\<open>gb_read_external_ram\<close>, \<open>mbc2_read_ram\<close>), 0x00 for external RAM on a cartridge
  without RAM (\<open>dummy_read_external_ram\<close>) and 0x00 for the unused region.\<close>

theorem disabled_and_unused_reads:
  assumes "(0xa000 \<le> a \<and> a \<le> 0xbfff \<and> \<not> ext_ram_enabled (memory_map e)) \<or>
           (0xfea0 \<le> a \<and> a \<le> 0xfeff)"
  shows "read_u8 e a =
     Some (if \<not> is_dma_access_ok e (map_address a) then 0xff
           else if a \<le> 0xbfff
             then (if external_ram_fn (memory_map e) = DUMMY_EXTERNAL_RAM then 0x00 else 0xff)
           else 0x00)"
proof -
  from assms consider
      (ext) "0xa000 \<le> a" "a \<le> 0xbfff" "\<not> ext_ram_enabled (memory_map e)"
    | (unused) "0xfea0 \<le> a" "a \<le> 0xfeff"
    by blast
  then show ?thesis
  proof cases
    case ext
    then have "type (map_address a) = MEMORY_MAP_EXTERNAL_RAM"
      by (simp add: map_address_external_ram)
    with ext show ?thesis
      by (cases "external_ram_fn (memory_map e)")
         (simp_all add: read_u8_def Let_def read_u8_no_dma_check_def call_read_external_ram_def
           dummy_read_external_ram_def gb_read_external_ram_def mbc2_read_ram_def
           INVALID_READ_BYTE_def)
  next
    case unused
    then have t: "type (map_address a) = MEMORY_MAP_UNUSED"
      by (simp add: map_address_unused)
    have "\<not> a \<le> 0xbfff" using unused by (simp add: word_le_nat_alt)
    with t show ?thesis
      by (simp add: read_u8_def Let_def read_u8_no_dma_check_def INVALID_READ_BYTE_def)
  qed
qed

theorem disabled_and_unused_reads_witness:
  "\<not> ext_ram_enabled (memory_map zero_emulator) \<and> read_u8 zero_emulator 0xa000 = Some 0x00 \<and>
   read_u8 zero_emulator 0xfea0 = Some 0x00"
  using disabled_and_unused_reads[of "0xa000" zero_emulator]
        disabled_and_unused_reads[of "0xfea0" zero_emulator]
  by (simp add: zero_emulator_def is_dma_access_ok_def)

subsection \<open>Reads during OAM DMA\<close>

lemma read_u8_no_dma_check_dma:
  "read_u8_no_dma_check (e\<lparr>dma := d\<rparr>) p = read_u8_no_dma_check e p"
proof -
  have 1: "read_vram (e\<lparr>dma := d\<rparr>) k = read_vram e k" for k
    by (simp add: read_vram_def)
  have 2: "call_read_external_ram (e\<lparr>dma := d\<rparr>) k = call_read_external_ram e k" for k
    by (simp add: call_read_external_ram_def dummy_read_external_ram_def
        gb_read_external_ram_def get_external_ram_address_def mbc2_read_ram_def
        split: ExternalRamFn.split)
  have 3: "gb_read_work_ram_bank_switch (e\<lparr>dma := d\<rparr>) k = gb_read_work_ram_bank_switch e k"
    for k
    by (simp add: gb_read_work_ram_bank_switch_def)
  have 4: "read_oam (e\<lparr>dma := d\<rparr>) k = read_oam e k" for k
    by (simp add: read_oam_def is_using_oam_def)
  have 5: "read_io (e\<lparr>dma := d\<rparr>) k = read_io e k" for k
    by (simp add: read_io_def split del: if_split cong: if_cong)
  have 6: "read_apu (e\<lparr>dma := d\<rparr>) k = read_apu e k" for k
    by (simp add: read_apu_def split del: if_split cong: if_cong)
  have 0: "is_concurrent_wave_ram_access (e\<lparr>dma := d\<rparr>) c = is_concurrent_wave_ram_access e c"
    for c
    by (simp add: is_concurrent_wave_ram_access_def Let_def)
  have 7: "read_wave_ram (e\<lparr>dma := d\<rparr>) k = read_wave_ram e k" for k
    by (simp add: read_wave_ram_def Let_def 0)
  show ?thesis
    by (simp add: read_u8_no_dma_check_def Let_def 1 2 3 4 5 6 7 split: MemoryMapType.split)
qed

text \<open>C7. While an OAM DMA transfer is active, a CPU read from an address outside HRAM
  (0xFF80-0xFFFE) returns 0xFF, except that when the DMA source region is VRAM a read
  from an address outside VRAM (0x8000-0x9FFF) and OAM (0xFE00-0xFE9F) returns what the
  same read returns with no DMA active.\<close>

theorem dma_read_blocking:
  assumes "active (dma e)" and "\<not> (0xff80 \<le> a \<and> a \<le> 0xfffe)"
  shows "read_u8 e a =
     (if type (source (dma e)) = MEMORY_MAP_VRAM \<and>
         \<not> (0x8000 \<le> a \<and> a \<le> 0x9fff) \<and> \<not> (0xfe00 \<le> a \<and> a \<le> 0xfe9f)
      then read_u8 (e\<lparr>dma := (dma e)\<lparr>active := False\<rparr>\<rparr>) a
      else Some 0xff)"
  using assms
  by (simp add: read_u8_def Let_def is_dma_access_ok_def map_address_high_ram
      map_address_vram map_address_is_oam read_u8_no_dma_check_dma INVALID_READ_BYTE_def)

theorem dma_read_blocking_witness:
  "read_u8 (zero_emulator\<lparr>dma := (dma zero_emulator)\<lparr>active := True\<rparr>\<rparr>) 0xc000 = Some 0xff"
  using dma_read_blocking[of "zero_emulator\<lparr>dma := (dma zero_emulator)\<lparr>active := True\<rparr>\<rparr>"
          "0xc000"]
  by (simp add: zero_emulator_def)

subsection \<open>OAM write and read\<close>

lemma oam_index:
  assumes "a \<le> (0x9f::u16)"
  shows "unat (drop_bit 2 a) < 40" "unat (ucast (drop_bit 2 a) :: u8) = unat (drop_bit 2 a)"
proof -
  have a: "unat a \<le> 159" using assms by (simp add: word_le_nat_alt)
  have d: "unat (drop_bit 2 a) = unat a div 4"
    by (simp add: drop_bit_eq_div unat_div)
  show "unat (drop_bit 2 a) < 40" using a d by simp
  then show "unat (ucast (drop_bit 2 a) :: u8) = unat (drop_bit 2 a)"
    by (simp add: unsigned_ucast_eq take_bit_nat_eq_self)
qed

lemma and3_cases: "(k::u16) AND 3 = 0 \<or> k AND 3 = 1 \<or> k AND 3 = 2 \<or> k AND 3 = 3"
proof -
  have "unat (k AND 3) < 4"
    using word_and_le1[of k 3] by (simp add: word_le_nat_alt)
  then have "unat (k AND 3) = 0 \<or> unat (k AND 3) = 1 \<or> unat (k AND 3) = 2 \<or>
             unat (k AND 3) = 3"
    by auto
  then show ?thesis by (simp add: word_unat_eq_iff)
qed

text \<open>C10. For every OAM offset \<open>a\<close> in [0, 0x9F] and every byte \<open>v\<close>, if the PPU mode
  is HBlank or VBlank and no OAM DMA is active, the CPU write of \<open>v\<close> to 0xFE00 + \<open>a\<close>
  succeeds and a CPU read of the same address in the resulting state returns \<open>v\<close>; this
  includes the Y and X bytes, stored with 16 and 8 subtracted.\<close>

theorem oam_write_then_read:
  assumes "a \<le> 0x9f"
    and "mode (stat (lcd e)) = LCD_MODE_HBLANK \<or> mode (stat (lcd e)) = LCD_MODE_VBLANK"
    and "\<not> active (dma e)"
  shows "Option.bind (write_u8 e (0xfe00 + a) v) (\<lambda>e1. read_u8 e1 (0xfe00 + a)) = Some v"
  using assms and3_cases[of a]
  by (auto simp: write_u8_def read_u8_def map_address_oam is_dma_access_ok_def write_oam_def
      read_u8_no_dma_check_def read_oam_def is_using_oam_def write_oam_no_mode_check_def
      index_array_def oam_index Let_def OBJ_COUNT_def INVALID_READ_BYTE_def)

theorem oam_write_then_read_witness:
  "Option.bind (write_u8 zero_emulator 0xfe05 0x07) (\<lambda>e1. read_u8 e1 0xfe05) = Some 0x07"
  using oam_write_then_read[of "0x05" zero_emulator "0x07"]
  by (simp add: zero_emulator_def zero_lcd_def)

subsection \<open>Wave RAM corruption on retrigger\<close>

lemma wave_group_src:
  assumes "p < (32::u8)"
  shows "unat (drop_bit 1 p AND 12) = 4 * (unat p div 2 div 4)"
    and "(drop_bit 3 p = 0) = (unat p div 2 < 4)"
    and "drop_bit 3 p = 0 \<or> drop_bit 3 p = 1 \<or> drop_bit 3 p = 2 \<or> drop_bit 3 p = 3"
proof -
  have "unat p < 32" using assms by (simp add: word_less_nat_alt)
  then have "unat p \<in> set [0..<32]" by simp
  then have "of_nat (unat p) \<in> (of_nat ` set [0..<32] :: u8 set)" by blast
  then have m: "p \<in> (of_nat ` set [0..<32] :: u8 set)" by simp
  have all: "\<forall>q \<in> (of_nat ` set [0..<32] :: u8 set).
        unat (drop_bit 1 q AND 12) = 4 * (unat q div 2 div 4) \<and>
        ((drop_bit 3 q = 0) = (unat q div 2 < 4)) \<and>
        (drop_bit 3 q = 0 \<or> drop_bit 3 q = 1 \<or> drop_bit 3 q = 2 \<or> drop_bit 3 q = 3)"
    by (simp add: upt_conv_Cons drop_bit_eq_div)
  from all m show "unat (drop_bit 1 p AND 12) = 4 * (unat p div 2 div 4)"
    and "(drop_bit 3 p = 0) = (unat p div 2 < 4)"
    and "drop_bit 3 p = 0 \<or> drop_bit 3 p = 1 \<or> drop_bit 3 p = 2 \<or> drop_bit 3 p = 3"
    by blast+
qed

lemma write_nrx4_reg_frame:
  "wave (sound (snd (write_nrx4_reg e i v m))) = wave (sound e)"
  "Emulator.cycles (snd (write_nrx4_reg e i v m)) = Emulator.cycles e"
  "fst (write_nrx4_reg e i v m) = bit v 7"
  by (simp_all add: write_nrx4_reg_def Let_def set_channel_def DECODE_BOOL_bit)

lemma set_wave_simps:
  "wave (sound (set_wave e w)) = w"
  "Emulator.cycles (set_wave e w) = Emulator.cycles e"
  by (simp_all add: set_wave_def)

text \<open>C3, as stated: in every state in which channel 3 is playing, a write to NR34 with
  bit 7 set corrupts Wave RAM. In \<open>wave_playing_state\<close> channel 3 is playing and the
  current sample (position 2, byte 0x22) lies in byte positions 0-3, so the claim has
  \<^verbatim>\<open>wave_ram[0]\<close> overwritten with 0x22; the write of 0x80 to NR34 succeeds and leaves
  \<^verbatim>\<open>wave_ram[0]\<close> at 0x11, because no retained sample was read at cycle 50 + 2.\<close>

theorem nr34_trigger_counterexample:
  "playing (wave (sound wave_playing_state)) \<and>
   WaveSample.position (Wave.sample (wave (sound wave_playing_state)) 0) = 2 \<and>
   byte (Wave.sample (wave (sound wave_playing_state)) 0) = 0x22 \<and>
   write_apu wave_playing_state 0xe 0x80 \<noteq> None \<and>
   Wave.ram (wave (sound (the (write_apu wave_playing_state 0xe 0x80)))) 0 = 0x11"
  by (simp add: write_apu.simps write_apu_reg_def wave_playing_state_def zero_emulator_def
      zero_sound_def zero_channel_def write_nrx4_reg_def write_wave_period_def
      trigger_nr34_reg_def set_channel_def set_wave_def is_concurrent_wave_ram_access_def
      Let_def CHANNEL3_def NR31_MAX_LENGTH_def SOUND_MAX_FREQUENCY_def DECODE_BOOL_bit
      DECODE_def BITS_MASK_def WAVE_SAMPLE_TRIGGER_OFFSET_CYCLES_def)

text \<open>C3, amended. In every state in which the APU is enabled and channel 3 is playing, a
  write to NR34 with bit 7 set succeeds (given that a coinciding sample has a position
  below 32, which the code asserts) and corrupts Wave RAM only if one of the two retained
  samples was read at the cycle counter plus \<^verbatim>\<open>WAVE_SAMPLE_TRIGGER_OFFSET_CYCLES\<close> (2): then,
  with \<open>bp\<close> the byte position of that sample, byte positions 0-3 overwrite
  \<^verbatim>\<open>wave_ram[0]\<close> with the sample's byte and byte positions 4-7, 8-11, 12-15 copy the four
  bytes of the sample's group to \<^verbatim>\<open>wave_ram[0..3]\<close>. If no retained sample coincides,
  Wave RAM is unchanged.\<close>

theorem nr34_trigger_wave_ram:
  assumes en: "Sound.enabled (sound e)" and pl: "playing (wave (sound e))" and tr: "bit v 7"
    and pos: "\<forall>k. is_concurrent_wave_ram_access e 2 = Some k \<longrightarrow>
                WaveSample.position (Wave.sample (wave (sound e)) k) < 32"
  shows "\<exists>e1. write_apu e 0xe v = Some e1 \<and>
     Wave.ram (wave (sound e1)) =
       (case is_concurrent_wave_ram_access e 2 of
          None \<Rightarrow> Wave.ram (wave (sound e))
        | Some k \<Rightarrow>
            (let smp = Wave.sample (wave (sound e)) k;
                 r = Wave.ram (wave (sound e));
                 bp = unat (WaveSample.position smp) div 2
             in if bp < 4 then r(0 := byte smp)
                else r(0 := r (4 * (bp div 4)), 1 := r (4 * (bp div 4) + 1),
                       2 := r (4 * (bp div 4) + 2), 3 := r (4 * (bp div 4) + 3))))"
proof -
  define e2 where
    "e2 = write_wave_period (snd (write_nrx4_reg e CHANNEL3 v NR31_MAX_LENGTH)) CHANNEL3"
  have step: "write_apu e 0xe v = trigger_nr34_reg e2 CHANNEL3"
    using en by (subst write_apu.simps)
      (simp add: write_apu_reg_def case_prod_beta Let_def write_nrx4_reg_frame tr e2_def)
  have w2: "Wave.ram (wave (sound e2)) = Wave.ram (wave (sound e))"
    "Wave.sample (wave (sound e2)) = Wave.sample (wave (sound e))"
    "playing (wave (sound e2)) = playing (wave (sound e))"
    "Emulator.cycles e2 = Emulator.cycles e"
    by (simp_all add: e2_def write_wave_period_def set_wave_def write_nrx4_reg_frame)
  have conc: "is_concurrent_wave_ram_access
        (set_wave e2 ((wave (sound e2))\<lparr>Wave.position := 0, Wave.cycles := c\<rparr>)) 2 =
      is_concurrent_wave_ram_access e 2" for c
    by (simp add: is_concurrent_wave_ram_access_def Let_def set_wave_simps w2)
  show ?thesis
  proof (cases "is_concurrent_wave_ram_access e 2")
    case None
    then show ?thesis
      using pl by (simp add: step trigger_nr34_reg_def Let_def conc w2 set_wave_simps
          WAVE_SAMPLE_TRIGGER_OFFSET_CYCLES_def)
  next
    case (Some k)
    then have p: "WaveSample.position (Wave.sample (wave (sound e)) k) < 32"
      using pos by blast
    note g = wave_group_src[OF p]
    show ?thesis
      using pl Some p g(3)
      by (auto simp: step trigger_nr34_reg_def Let_def conc w2 set_wave_simps c_assert_def
          WAVE_SAMPLE_TRIGGER_OFFSET_CYCLES_def g(1)[unfolded One_nat_def] g(2))
  qed
qed

theorem nr34_trigger_wave_ram_witness:
  "Sound.enabled (sound wave_trigger_state) \<and> playing (wave (sound wave_trigger_state)) \<and>
   is_concurrent_wave_ram_access wave_trigger_state 2 = Some 0 \<and>
   (\<exists>e1. write_apu wave_trigger_state 0xe 0x80 = Some e1 \<and>
         Wave.ram (wave (sound e1)) = (\<lambda>_. 0)(0 := 0x22, 1 := 0x22))"
  using nr34_trigger_wave_ram[of wave_trigger_state "0x80"]
  by (simp add: wave_trigger_state_def wave_playing_state_def zero_emulator_def zero_sound_def
      is_concurrent_wave_ram_access_def Let_def fun_upd_twist)

subsection \<open>The clock updates leave the CPU state alone\<close>

lemma same_cpu_refl: "same_cpu e e"
  by (simp add: same_cpu_def)

lemma same_cpu_trans: "same_cpu a b \<Longrightarrow> same_cpu b c \<Longrightarrow> same_cpu a c"
  unfolding same_cpu_def
  by (metis (no_types, lifting) and.assoc)

lemma same_cpu_raise_IF: "same_cpu e (raise_IF e m)"
  by (simp add: same_cpu_def raise_IF_def)

lemma write_oam_no_mode_check_same:
  "write_oam_no_mode_check e a v = Some e1 \<Longrightarrow>
   reg e1 = reg e \<and> interrupts e1 = interrupts e \<and> dma e1 = dma e"
  by (auto simp: write_oam_no_mode_check_def index_array_def Let_def split: if_splits)

lemma update_dma_loop_same:
  "update_dma_loop e n c = Some e1 \<Longrightarrow> reg e1 = reg e \<and> interrupts e1 = interrupts e"
proof (induction e n c arbitrary: e1 rule: update_dma_loop.induct)
  case (1 e n c)
  show ?case
  proof (cases "n < c \<and> addr_offset (dma e) < OAM_TRANSFER_SIZE")
    case False
    with "1.prems" show ?thesis by (simp add: update_dma_loop.simps[of e n c])
  next
    case True
    from "1.prems" True obtain v ew where
      r: "read_u8_no_dma_check e ((source (dma e))\<lparr>addr := addr (source (dma e)) + ucast (addr_offset (dma e))\<rparr>) = Some v"
      and w: "write_oam_no_mode_check e (ucast (addr_offset (dma e))) v = Some ew"
      and l: "update_dma_loop (ew\<lparr>dma := (dma ew)\<lparr>addr_offset := addr_offset (dma ew) + 1\<rparr>\<rparr>) (n + 4) c = Some e1"
      by (auto simp: update_dma_loop.simps[of e n c] Let_def split: Option.bind_splits)
    from "1.IH"[OF True refl r w l] write_oam_no_mode_check_same[OF w]
    show ?thesis by simp
  qed
qed

lemma update_dma_cycles_same:
  "update_dma_cycles e c = Some e1 \<Longrightarrow> same_cpu e e1"
  by (auto simp: update_dma_cycles_def Let_def same_cpu_def c_assert_def
      split: if_splits Option.bind_splits prod.splits dest: update_dma_loop_same)

lemma render_line_same: "render_line e l = Some e1 \<Longrightarrow> same_cpu e e1"
  by (auto simp: render_line_def c_assert_def same_cpu_def split: if_splits Option.bind_splits)

lemma same_cpu_set_lcd_mode: "same_cpu e (set_lcd_mode e m)"
  by (simp add: same_cpu_def set_lcd_mode_def)

lemma same_cpu_lcd_update: "same_cpu e (e\<lparr>lcd := l\<rparr>)"
  by (simp add: same_cpu_def)

lemma update_timer_step_same: "same_cpu e (update_timer_step e)"
  by (simp add: update_timer_step_def write_div_counter_def increment_tima_def Let_def
      raise_IF_def same_cpu_def)

lemma update_timer_loop_same: "same_cpu e (update_timer_loop e i c)"
proof (induction e i c rule: update_timer_loop.induct)
  case (1 e i c)
  show ?case
  proof (cases "i < c")
    case True
    with 1 have "same_cpu (update_timer_step e) (update_timer_loop e i c)"
      by (simp add: update_timer_loop.simps[of e i c])
    with update_timer_step_same[of e] show ?thesis by (rule same_cpu_trans)
  next
    case False
    then show ?thesis by (simp add: update_timer_loop.simps[of e i c] same_cpu_refl)
  qed
qed

lemma update_sound_cycles_same: "update_sound_cycles e c = Some e1 \<Longrightarrow> same_cpu e e1"
  by (auto simp: update_sound_cycles_def same_cpu_def split: if_splits Option.bind_splits)

lemma and_or2: "x AND ((x OR a) OR b) = x" for x :: "'a::len word"
  by (simp add: bit_eq_iff bit_simps) blast

lemma and_or3: "x AND (((x OR a) OR b) OR c) = x" for x :: "'a::len word"
  by (simp add: bit_eq_iff bit_simps) blast

lemma update_lcd_cycles_same: "update_lcd_cycles e c = Some e1 \<Longrightarrow> same_cpu e e1"
  by (auto simp: update_lcd_cycles_def Let_def render_line_def c_assert_def set_lcd_mode_def
      raise_IF_def VALUE_WRAPPED_def same_cpu_def and_or2 and_or3
      split: if_splits LCDMode.splits prod.splits Option.bind_splits)

lemma same_cpu_cycles: "same_cpu e (e\<lparr>Emulator.cycles := c\<rparr>)"
  by (simp add: same_cpu_def)

lemma update_cycles_same: "update_cycles e c = Some e1 \<Longrightarrow> same_cpu e e1"
proof -
  assume a: "update_cycles e c = Some e1"
  then obtain d l s where d: "update_dma_cycles e c = Some d"
    and l: "update_lcd_cycles d c = Some l"
    and s: "update_sound_cycles (update_timer_cycles l c) c = Some s"
    and e1: "e1 = s\<lparr>Emulator.cycles := Emulator.cycles s + ucast c\<rparr>"
    by (auto simp: update_cycles_def split: Option.bind_splits)
  have 1: "same_cpu e d" using d by (rule update_dma_cycles_same)
  have 2: "same_cpu d l" using l by (rule update_lcd_cycles_same)
  have 3: "same_cpu l (update_timer_cycles l c)"
    by (simp add: update_timer_cycles_def update_timer_loop_same)
  have 4: "same_cpu (update_timer_cycles l c) s" using s by (rule update_sound_cycles_same)
  have 5: "same_cpu s e1" unfolding e1 by (rule same_cpu_cycles)
  show ?thesis
    by (rule same_cpu_trans[OF same_cpu_trans[OF same_cpu_trans[OF same_cpu_trans[OF 1 2] 3] 4] 5])
qed

subsection \<open>Decoding of an instruction\<close>

lemma read_u8_no_dma_check_intr:
  assumes "IF i = IF (interrupts e)" "IE i = IE (interrupts e)"
  shows "read_u8_no_dma_check (e\<lparr>interrupts := i\<rparr>) p = read_u8_no_dma_check e p"
proof -
  have 1: "read_vram (e\<lparr>interrupts := i\<rparr>) k = read_vram e k" for k
    by (simp add: read_vram_def)
  have 2: "call_read_external_ram (e\<lparr>interrupts := i\<rparr>) k = call_read_external_ram e k" for k
    by (simp add: call_read_external_ram_def dummy_read_external_ram_def
        gb_read_external_ram_def get_external_ram_address_def mbc2_read_ram_def
        split: ExternalRamFn.split)
  have 3: "gb_read_work_ram_bank_switch (e\<lparr>interrupts := i\<rparr>) k = gb_read_work_ram_bank_switch e k"
    for k
    by (simp add: gb_read_work_ram_bank_switch_def)
  have 4: "read_oam (e\<lparr>interrupts := i\<rparr>) k = read_oam e k" for k
    by (simp add: read_oam_def is_using_oam_def)
  have 5: "read_io (e\<lparr>interrupts := i\<rparr>) k = read_io e k" for k
    using assms by (simp add: read_io_def split del: if_split cong: if_cong)
  have 6: "read_apu (e\<lparr>interrupts := i\<rparr>) k = read_apu e k" for k
    by (simp add: read_apu_def split del: if_split cong: if_cong)
  have 0: "is_concurrent_wave_ram_access (e\<lparr>interrupts := i\<rparr>) c = is_concurrent_wave_ram_access e c"
    for c
    by (simp add: is_concurrent_wave_ram_access_def Let_def)
  have 7: "read_wave_ram (e\<lparr>interrupts := i\<rparr>) k = read_wave_ram e k" for k
    by (simp add: read_wave_ram_def Let_def 0)
  show ?thesis
    by (simp add: read_u8_no_dma_check_def Let_def 1 2 3 4 5 6 7 split: MemoryMapType.split)
qed

lemma read_u8_intr:
  assumes "IF i = IF (interrupts e)" "IE i = IE (interrupts e)"
  shows "read_u8 (e\<lparr>interrupts := i\<rparr>) a = read_u8 e a"
proof -
  have "is_dma_access_ok (e\<lparr>interrupts := i\<rparr>) p = is_dma_access_ok e p" for p
    by (simp add: is_dma_access_ok_def)
  then show ?thesis
    by (simp add: read_u8_def Let_def read_u8_no_dma_check_intr[OF assms])
qed

lemma apply_pending_enable_read: "read_u8 (apply_pending_enable e) a = read_u8 e a"
  by (simp add: apply_pending_enable_def set_intr_def read_u8_intr)

lemma opcode_tables:
  "s_opcode_bytes ! unat (0x00::u8) = 1" "s_opcode_cycles ! unat (0x00::u8) = 4"
  "s_opcode_bytes ! unat (0x3c::u8) = 1" "s_opcode_cycles ! unat (0x3c::u8) = 4"
  "s_opcode_bytes ! unat (0x3e::u8) = 2" "s_opcode_cycles ! unat (0x3e::u8) = 8"
  "s_opcode_bytes ! unat (0x76::u8) = 1" "s_opcode_cycles ! unat (0x76::u8) = 0"
  "s_opcode_bytes ! unat (0xf1::u8) = 1" "s_opcode_cycles ! unat (0xf1::u8) = 12"
  "s_opcode_bytes ! unat (0xf3::u8) = 1" "s_opcode_cycles ! unat (0xf3::u8) = 4"
  "s_opcode_bytes ! unat (0xf5::u8) = 1" "s_opcode_cycles ! unat (0xf5::u8) = 16"
  "s_opcode_bytes ! unat (0xfb::u8) = 1" "s_opcode_cycles ! unat (0xfb::u8) = 4"
  by (simp_all add: s_opcode_bytes_def s_opcode_cycles_def)

lemma execute_instruction_decode:
  assumes "\<not> halt (interrupts e)"
    and "read_u8 e (PC (reg e)) = Some op" "op \<noteq> 0xcb"
  shows "execute_instruction e =
     (case update_cycles (apply_halt_bug (apply_pending_enable e)) (s_opcode_cycles ! unat op) of
        None \<Rightarrow> Exit
      | Some e2 \<Rightarrow>
          (case execute_opcode op e2
                  (PC (reg (apply_halt_bug (apply_pending_enable e))) +
                   ucast (s_opcode_bytes ! unat op)) of
             Next (e3, pc) \<Rightarrow> Next (set_reg e3 (\<lambda>r. r\<lparr>PC := pc\<rparr>))
           | Exit \<Rightarrow> Exit
           | Not_Embedded \<Rightarrow> Not_Embedded))"
proof -
  have h: "\<not> halt (interrupts (apply_pending_enable e))"
    using assms(1) by (simp add: apply_pending_enable_def set_intr_def)
  have r: "read_u8 (apply_pending_enable e) (PC (reg (apply_pending_enable e))) = Some op"
    using assms(2) by (simp add: apply_pending_enable_read) (simp add: apply_pending_enable_def set_intr_def)
  show ?thesis
    unfolding execute_instruction_def Let_def using h r assms(3) by simp
qed

lemma pre_simps:
  "IME (interrupts (apply_halt_bug e)) = IME (interrupts e)"
  "halt (interrupts (apply_halt_bug e)) = halt (interrupts e)"
  "enable (interrupts (apply_halt_bug e)) = enable (interrupts e)"
  "IE (interrupts (apply_halt_bug e)) = IE (interrupts e)"
  "IF (interrupts (apply_halt_bug e)) = IF (interrupts e)"
  "\<not> halt_DI (interrupts (apply_halt_bug e))"
  "PC (reg (apply_halt_bug e)) = (if halt_DI (interrupts e) then PC (reg e) - 1 else PC (reg e))"
  "halt (interrupts (apply_pending_enable e)) = halt (interrupts e)"
  "halt_DI (interrupts (apply_pending_enable e)) = halt_DI (interrupts e)"
  "IE (interrupts (apply_pending_enable e)) = IE (interrupts e)"
  "IF (interrupts (apply_pending_enable e)) = IF (interrupts e)"
  "\<not> enable (interrupts (apply_pending_enable e))"
  "IME (interrupts (apply_pending_enable e)) = (IME (interrupts e) \<or> enable (interrupts e))"
  "reg (apply_pending_enable e) = reg e"
  by (simp_all add: apply_halt_bug_def apply_pending_enable_def set_intr_def set_reg_def)

lemma execute_instruction_NextE:
  assumes "execute_instruction e = Next e'" "\<not> halt (interrupts e)"
    and "read_u8 e (PC (reg e)) = Some op" "op \<noteq> 0xcb"
  shows "\<exists>eu ex pc.
    update_cycles (apply_halt_bug (apply_pending_enable e)) (s_opcode_cycles ! unat op) = Some eu \<and>
    execute_opcode op eu (PC (reg (apply_halt_bug (apply_pending_enable e))) +
                           ucast (s_opcode_bytes ! unat op)) = Next (ex, pc) \<and>
    e' = set_reg ex (\<lambda>r. r\<lparr>PC := pc\<rparr>) \<and>
    same_cpu (apply_halt_bug (apply_pending_enable e)) eu"
proof (cases "update_cycles (apply_halt_bug (apply_pending_enable e)) (s_opcode_cycles ! unat op)")
  case None
  then show ?thesis
    using assms(1) unfolding execute_instruction_decode[OF assms(2,3,4)] by simp
next
  case (Some eu)
  note u = this
  show ?thesis
  proof (cases "execute_opcode op eu (PC (reg (apply_halt_bug (apply_pending_enable e))) +
                           ucast (s_opcode_bytes ! unat op))")
    case (Next p)
    obtain ex pc where p: "p = (ex, pc)" by (cases p)
    have "e' = set_reg ex (\<lambda>r. r\<lparr>PC := pc\<rparr>)"
      using assms(1) Next unfolding execute_instruction_decode[OF assms(2,3,4)] u p by simp
    then show ?thesis
      using u Next p update_cycles_same[OF u] by simp
  next
    case Exit
    then show ?thesis
      using assms(1) unfolding execute_instruction_decode[OF assms(2,3,4)] u by simp
  next
    case Not_Embedded
    then show ?thesis
      using assms(1) unfolding execute_instruction_decode[OF assms(2,3,4)] u by simp
  qed
qed









lemma execute_instruction_fetch:
  "execute_instruction e =
     (if halt (interrupts (apply_pending_enable e))
      then exec_of (update_cycles (apply_pending_enable e) 4)
      else
        (case fetch_opcode (apply_pending_enable e) of None \<Rightarrow> Exit
         | Some (op, e1, npc) \<Rightarrow>
             if op = 0xcb then Not_Embedded
             else
               (case update_cycles e1 (s_opcode_cycles ! unat op) of None \<Rightarrow> Exit
                | Some e2 \<Rightarrow>
                    (case execute_opcode op e2 npc of
                       Next (e3, pc) \<Rightarrow> Next (set_reg e3 (\<lambda>r. r\<lparr>PC := pc\<rparr>))
                     | Exit \<Rightarrow> Exit
                     | Not_Embedded \<Rightarrow> Not_Embedded))))"
  by (simp add: execute_instruction_def fetch_opcode_def Let_def split: option.split)





subsection \<open>Evaluation of steps on the example states\<close>

lemma update_timer_step_frame:
  "sound (update_timer_step e) = sound e"
  "Emulator.cycles (update_timer_step e) = Emulator.cycles e"
  "config (update_timer_step e) = config e"
  "lcd (update_timer_step e) = lcd e"
  "dma (update_timer_step e) = dma e"
  "rom_data (update_timer_step e) = rom_data e"
  "memory_map (update_timer_step e) = memory_map e"
  "reg (update_timer_step e) = reg e"
  by (simp_all add: update_timer_step_def write_div_counter_def increment_tima_def Let_def
      raise_IF_def)

lemma timer_loop_simps:
  "i < c \<Longrightarrow> update_timer_loop e i c = update_timer_loop (update_timer_step e) (i + 4) c"
  "\<not> i < c \<Longrightarrow> update_timer_loop e i c = e"
  by (simp_all add: update_timer_loop.simps[of e i c])

lemma sound_off_loop_simps:
  "i < c \<Longrightarrow> update_sound_off_loop s i c =
     write_sample s 0 0 \<bind> (\<lambda>s1. update_sound_off_loop s1 (i + 2) c)"
  "\<not> i < c \<Longrightarrow> update_sound_off_loop s i c = Some s"
  by (simp_all add: update_sound_off_loop.simps[of s i c])


lemma update_cycles_idle_4:
  assumes "\<not> active (dma e)" "\<not> display (lcdc (lcd e))" "\<not> Sound.enabled (sound e)"
    and "\<not> LINE_CYCLES \<le> LCD.cycles (lcd e) + 4"
    and "List.length (samples (buffer (sound e))) + 4 \<le> capacity (buffer (sound e))"
  shows "update_cycles e 4 =
     Some ((update_timer_step (e\<lparr>lcd := (lcd e)\<lparr>LCD.cycles := LCD.cycles (lcd e) + 4\<rparr>\<rparr>))
        \<lparr>sound := (sound e)\<lparr>buffer := (buffer (sound e))
                   \<lparr>samples := samples (buffer (sound e)) @ [0, 0, 0, 0]\<rparr>\<rparr>,
         Emulator.cycles := Emulator.cycles e + 4\<rparr>)"
  using assms
  by (simp add: update_cycles_def update_dma_cycles_def update_lcd_cycles_def Let_def
      VALUE_WRAPPED_def update_timer_cycles_def timer_loop_simps update_timer_step_frame
      update_sound_cycles_def sound_off_loop_simps
      write_sample_def c_assert_def)

lemma update_cycles_idle:
  assumes "\<not> active (dma e)" "\<not> display (lcdc (lcd e))" "\<not> Sound.enabled (sound e)"
    and "\<not> LINE_CYCLES \<le> LCD.cycles (lcd e) + 4"
    and "List.length (samples (buffer (sound e))) + 4 \<le> capacity (buffer (sound e))"
  shows "update_cycles e 4 = Some (idle_cycles e)"
  unfolding idle_cycles_def using assms by (rule update_cycles_idle_4)






lemma exec_step:
  assumes "\<not> halt (interrupts e)" "read_u8 e (PC (reg e)) = Some op" "op \<noteq> 0xcb"
    and "apply_halt_bug (apply_pending_enable e) = ep"
    and "s_opcode_cycles ! unat op = cy" "s_opcode_bytes ! unat op = nb"
    and "update_cycles ep cy = Some eu"
    and "execute_opcode op eu (PC (reg ep) + ucast nb) = Next (ex, pc)"
  shows "execute_instruction e = Next (set_reg ex (\<lambda>r. r\<lparr>PC := pc\<rparr>))"
  by (simp add: execute_instruction_decode[OF assms(1,2,3)] assms(4,5,6,7,8))


lemma map_address_rom:
  "map_address 0x100 = \<lparr>type = MEMORY_MAP_ROM, addr = 0x100\<rparr>"
  "map_address 0x101 = \<lparr>type = MEMORY_MAP_ROM, addr = 0x101\<rparr>"
  "map_address 0x102 = \<lparr>type = MEMORY_MAP_ROM, addr = 0x102\<rparr>"
  by (simp_all add: map_address_def)

lemma rom_read:
  assumes "\<not> active (dma e)" "RomData.size_bytes (rom_data e) = 32768"
  shows "read_u8 e 0x100 = Some (RomData.data (rom_data e) 0x100)"
    "read_u8 e 0x101 = Some (RomData.data (rom_data e) 0x101)"
    "read_u8 e 0x102 = Some (RomData.data (rom_data e) 0x102)"
  using assms
  by (simp_all add: read_u8_def Let_def is_dma_access_ok_def map_address_rom
      read_u8_no_dma_check_def index_array_def)

lemmas ex_defs = zero_emulator_def zero_lcd_def zero_sound_def LINE_CYCLES_def

lemmas idle_defs = idle_cycles_def update_timer_step_def write_div_counter_def
  increment_tima_def raise_IF_def s_tima_mask_def INTERRUPT_TIMER_MASK_def Let_def
  set_reg_def set_intr_def



lemma ei_di_1: "execute_instruction ei_di_state = Next ei_di_state_1"
proof -
  have r: "read_u8 ei_di_state (PC (reg ei_di_state)) = Some 0xfb"
    by (simp add: ei_di_state_def ex_defs rom_read)
  have h: "\<not> halt (interrupts ei_di_state)"
    by (simp add: ei_di_state_def ex_defs)
  have p: "apply_halt_bug (apply_pending_enable ei_di_state) = ei_di_state"
    by (simp add: apply_halt_bug_def apply_pending_enable_def ei_di_state_def ex_defs)
  have u: "update_cycles ei_di_state 4 = Some (idle_cycles ei_di_state)"
    by (rule update_cycles_idle) (simp_all add: ei_di_state_def ex_defs)
  have x: "execute_opcode 0xfb eu (PC (reg ei_di_state) + ucast (1::u8)) =
      Next (set_intr eu (\<lambda>i. i\<lparr>enable := True\<rparr>), PC (reg ei_di_state) + 1)" for eu
    by (simp add: execute_opcode_def)
  show ?thesis
    unfolding exec_step[OF h r _ p opcode_tables(16) opcode_tables(15) u x, simplified]
    by (simp add: idle_defs ei_di_state_1_def ei_di_state_def ex_defs)
qed

lemma ei_di_2: "execute_instruction ei_di_state_1 = Next ei_di_state_2"
proof -
  let ?P = "ei_di_state_1\<lparr>interrupts := (interrupts ei_di_state_1)\<lparr>enable := False, IME := True\<rparr>\<rparr>"
  have r: "read_u8 ei_di_state_1 (PC (reg ei_di_state_1)) = Some 0xf3"
    by (simp add: ei_di_state_1_def ei_di_state_def ex_defs rom_read)
  have h: "\<not> halt (interrupts ei_di_state_1)"
    by (simp add: ei_di_state_1_def ei_di_state_def ex_defs)
  have p: "apply_halt_bug (apply_pending_enable ei_di_state_1) = ?P"
    by (simp add: apply_halt_bug_def apply_pending_enable_def set_intr_def ei_di_state_1_def
        ei_di_state_def ex_defs)
  have u: "update_cycles ?P 4 = Some (idle_cycles ?P)"
    by (rule update_cycles_idle) (simp_all add: ei_di_state_1_def ei_di_state_def ex_defs)
  have x: "execute_opcode 0xf3 eu (PC (reg ?P) + ucast (1::u8)) =
      Next (set_intr eu (\<lambda>i. i\<lparr>IME := False, enable := False\<rparr>), PC (reg ?P) + 1)" for eu
    by (simp add: execute_opcode_def)
  show ?thesis
    unfolding exec_step[OF h r _ p opcode_tables(12) opcode_tables(11) u x, simplified]
    by (simp add: idle_defs ei_di_state_2_def ei_di_state_1_def ei_di_state_def ex_defs)
qed









subsection \<open>Delayed reload of TIMA\<close>

lemma clock_cases: "(c :: 2 word) = 0 \<or> c = 1 \<or> c = 2 \<or> c = 3"
proof -
  have "unat c < 4" using unsigned_less[of c] by simp
  then have "unat c = 0 \<or> unat c = 1 \<or> unat c = 2 \<or> unat c = 3" by arith
  then show ?thesis by (auto simp: word_unat_eq_iff)
qed

lemma s_tima_mask_pow: "\<exists>b<16. s_tima_mask c = push_bit b 1"
proof -
  consider "c = 0" | "c = 1" | "c = 2" | "c = 3" using clock_cases[of c] by blast
  then show ?thesis
  proof cases
    case 1 then show ?thesis by (intro exI[of _ 9]) (simp add: s_tima_mask_def)
  next
    case 2 then show ?thesis by (intro exI[of _ 3]) (simp add: s_tima_mask_def)
  next
    case 3 then show ?thesis by (intro exI[of _ 5]) (simp add: s_tima_mask_def)
  next
    case 4 then show ?thesis by (intro exI[of _ 7]) (simp add: s_tima_mask_def)
  qed
qed

lemma falling_edge_bit:
  "b < 16 \<Longrightarrow> (((d XOR d') AND NOT d') AND push_bit b 1 \<noteq> 0) = (bit d b \<and> \<not> bit d' b)"
  for d d' :: u16
  by (auto simp: and_exp_eq_0_iff_not_bit bit_simps)

lemma update_timer_4: "update_timer_cycles x 4 = update_timer_step x"
  by (simp add: update_timer_cycles_def update_timer_loop.simps[of _ 0 4]
      update_timer_loop.simps[of _ 4 4])

lemma update_timer_8: "update_timer_cycles x 8 = update_timer_step (update_timer_step x)"
  by (simp add: update_timer_cycles_def update_timer_loop.simps[of _ 0 8]
      update_timer_loop.simps[of _ 4 8] update_timer_loop.simps[of _ 8 8])

lemma update_timer_step_off:
  assumes "\<not> on (Emulator.timer x)"
  shows "update_timer_step x =
     x\<lparr>Emulator.timer := (Emulator.timer x)\<lparr>div_counter := div_counter (Emulator.timer x) + 4\<rparr>\<rparr>"
  using assms by (simp add: update_timer_step_def write_div_counter_def Let_def)

lemma update_timer_loop_off:
  "\<not> on (Emulator.timer x) \<Longrightarrow>
   TIMA (Emulator.timer (update_timer_loop x i c)) = TIMA (Emulator.timer x) \<and>
   tima_overflow (Emulator.timer (update_timer_loop x i c)) = tima_overflow (Emulator.timer x) \<and>
   interrupts (update_timer_loop x i c) = interrupts x"
proof (induction x i c rule: update_timer_loop.induct)
  case (1 e i cyc)
  show ?case
  proof (cases "i < cyc")
    case True
    have o: "\<not> on (Emulator.timer (update_timer_step e))"
      using "1.prems" by (simp add: update_timer_step_off)
    show ?thesis
      using "1.IH"[OF True o] True "1.prems"
      by (simp add: update_timer_loop.simps[of e i cyc] update_timer_step_off)
  next
    case False
    then show ?thesis by (simp add: update_timer_loop.simps[of e i cyc])
  qed
qed

text \<open>C4, as stated: whenever \<^verbatim>\<open>TIMA\<close> wraps while the timer is enabled, it is reloaded with
  \<^verbatim>\<open>TMA\<close> after one machine cycle and the timer bit of \<^verbatim>\<open>IF\<close> is set then. In
  \<open>timer_overflow_state\<close> the timer is enabled and the next machine cycle wraps \<^verbatim>\<open>TIMA\<close>
  (\<open>timer_overflow_state_1\<close>). The CPU then writes 0 to \<^verbatim>\<open>TAC\<close>, which turns the timer off
  (\<open>timer_stopped_state\<close>); after the next machine cycle \<^verbatim>\<open>TIMA\<close> is still 0, not \<^verbatim>\<open>TMA\<close>
  (0x42), and \<^verbatim>\<open>IF\<close> is still 0: \<open>update_timer_step\<close> reloads only when \<^verbatim>\<open>timer.on\<close> is
  set.\<close>

theorem tima_reload_counterexample:
  "on (Emulator.timer timer_overflow_state) \<and>
   TIMA (Emulator.timer timer_overflow_state) = 0xff \<and>
   update_timer_cycles timer_overflow_state 4 = timer_overflow_state_1 \<and>
   TIMA (Emulator.timer timer_overflow_state_1) = 0 \<and>
   write_u8 timer_overflow_state_1 0xff07 0x00 = Some timer_stopped_state \<and>
   TIMA (Emulator.timer (update_timer_cycles timer_stopped_state 4)) = 0 \<and>
   TMA (Emulator.timer (update_timer_cycles timer_stopped_state 4)) = 0x42 \<and>
   IF (interrupts (update_timer_cycles timer_stopped_state 4)) = 0"
  by (simp add: update_timer_4 update_timer_step_def write_div_counter_def increment_tima_def
      raise_IF_def s_tima_mask_def Let_def write_u8_def map_address_def is_dma_access_ok_def
      write_io_def DECODE_def DECODE_BOOL_def BITS_MASK_def
      timer_overflow_state_def timer_overflow_state_1_def timer_stopped_state_def
      zero_emulator_def)

text \<open>C4, amended. Four facts, for states \<open>w\<close>, \<open>r\<close>, \<open>g\<close> and \<open>e\<close>.
  (1) Every increment of \<^verbatim>\<open>TIMA\<close> is made by \<open>increment_tima\<close> (timer tick, write to \<^verbatim>\<open>DIV\<close>,
  write to \<^verbatim>\<open>TAC\<close>); when it wraps \<^verbatim>\<open>TIMA\<close> from 0xff, \<^verbatim>\<open>TIMA\<close> is 0 and reads as 0, a
  reload is waiting (\<^verbatim>\<open>tima_overflow\<close>) and \<^verbatim>\<open>IF\<close> is unchanged.
  (2) When a reload is waiting and the timer is enabled, the next machine cycle of the
  timer sets the timer bit of \<^verbatim>\<open>IF\<close> and loads \<^verbatim>\<open>TMA\<close> into \<^verbatim>\<open>TIMA\<close>; \<^verbatim>\<open>TIMA\<close> is
  incremented once more in that cycle if the cycle clears the selected bit of
  \<^verbatim>\<open>div_counter\<close>.
  (3) When a reload is waiting and the timer is disabled, the timer update, for any
  number of cycles, leaves \<^verbatim>\<open>TIMA\<close>, the waiting reload and \<^verbatim>\<open>IF\<close> as they are.
  (4) When the timer is enabled, no reload is waiting, \<^verbatim>\<open>TIMA\<close> is 0xff and the next machine
  cycle clears the selected bit of \<^verbatim>\<open>div_counter\<close> (a timer tick wraps \<^verbatim>\<open>TIMA\<close>), then after
  that machine cycle \<^verbatim>\<open>TIMA\<close> is 0 and reads as 0, \<^verbatim>\<open>IF\<close> is unchanged and the timer is
  still enabled; one more machine cycle of the timer update, in a second call or in the
  same call with 8 cycles, loads \<^verbatim>\<open>TMA\<close> into \<^verbatim>\<open>TIMA\<close>, which reads as \<^verbatim>\<open>TMA\<close>, and sets the
  timer bit of \<^verbatim>\<open>IF\<close>.\<close>

theorem tima_overflow_reload_delay:
  "(TIMA (Emulator.timer w) = 0xff \<longrightarrow>
      TIMA (Emulator.timer (increment_tima w)) = 0 \<and>
      read_io (increment_tima w) 0x05 = 0 \<and>
      tima_overflow (Emulator.timer (increment_tima w)) \<and>
      interrupts (increment_tima w) = interrupts w) \<and>
   (tima_overflow (Emulator.timer r) \<and> on (Emulator.timer r) \<longrightarrow>
      IF (interrupts (update_timer_cycles r 4)) = IF (interrupts r) OR INTERRUPT_TIMER_MASK \<and>
      TIMA (Emulator.timer (update_timer_cycles r 4)) =
        (if ((div_counter (Emulator.timer r) XOR (div_counter (Emulator.timer r) + 4)) AND
             NOT (div_counter (Emulator.timer r) + 4)) AND
            s_tima_mask (clock_select (Emulator.timer r)) \<noteq> 0
         then TMA (Emulator.timer r) + 1 else TMA (Emulator.timer r))) \<and>
   (tima_overflow (Emulator.timer g) \<and> \<not> on (Emulator.timer g) \<longrightarrow>
      TIMA (Emulator.timer (update_timer_cycles g c)) = TIMA (Emulator.timer g) \<and>
      tima_overflow (Emulator.timer (update_timer_cycles g c)) \<and>
      IF (interrupts (update_timer_cycles g c)) = IF (interrupts g)) \<and>
   (on (Emulator.timer e) \<and> \<not> tima_overflow (Emulator.timer e) \<and>
    TIMA (Emulator.timer e) = 0xff \<and>
    ((div_counter (Emulator.timer e) XOR (div_counter (Emulator.timer e) + 4)) AND
     NOT (div_counter (Emulator.timer e) + 4)) AND
    s_tima_mask (clock_select (Emulator.timer e)) \<noteq> 0 \<longrightarrow>
      TIMA (Emulator.timer (update_timer_cycles e 4)) = 0 \<and>
      read_io (update_timer_cycles e 4) 0x05 = 0 \<and>
      IF (interrupts (update_timer_cycles e 4)) = IF (interrupts e) \<and>
      on (Emulator.timer (update_timer_cycles e 4)) \<and>
      update_timer_cycles (update_timer_cycles e 4) 4 = update_timer_cycles e 8 \<and>
      TIMA (Emulator.timer (update_timer_cycles e 8)) = TMA (Emulator.timer e) \<and>
      read_io (update_timer_cycles e 8) 0x05 = TMA (Emulator.timer e) \<and>
      IF (interrupts (update_timer_cycles e 8)) = IF (interrupts e) OR INTERRUPT_TIMER_MASK)"
proof (intro conjI impI)
  assume "TIMA (Emulator.timer w) = 0xff"
  then show "TIMA (Emulator.timer (increment_tima w)) = 0"
    "read_io (increment_tima w) 0x05 = 0"
    "tima_overflow (Emulator.timer (increment_tima w))"
    "interrupts (increment_tima w) = interrupts w"
    by (simp_all add: increment_tima_def read_io_def)
next
  assume a: "tima_overflow (Emulator.timer r) \<and> on (Emulator.timer r)"
  show "IF (interrupts (update_timer_cycles r 4)) = IF (interrupts r) OR INTERRUPT_TIMER_MASK"
    using a by (simp add: update_timer_4 update_timer_step_def write_div_counter_def
        increment_tima_def raise_IF_def Let_def)
  show "TIMA (Emulator.timer (update_timer_cycles r 4)) =
        (if ((div_counter (Emulator.timer r) XOR (div_counter (Emulator.timer r) + 4)) AND
             NOT (div_counter (Emulator.timer r) + 4)) AND
            s_tima_mask (clock_select (Emulator.timer r)) \<noteq> 0
         then TMA (Emulator.timer r) + 1 else TMA (Emulator.timer r))"
    using a by (simp add: update_timer_4 update_timer_step_def write_div_counter_def
        increment_tima_def raise_IF_def Let_def)
next
  assume a: "tima_overflow (Emulator.timer g) \<and> \<not> on (Emulator.timer g)"
  then have o: "\<not> on (Emulator.timer g)" by simp
  show "TIMA (Emulator.timer (update_timer_cycles g c)) = TIMA (Emulator.timer g)"
    "tima_overflow (Emulator.timer (update_timer_cycles g c))"
    "IF (interrupts (update_timer_cycles g c)) = IF (interrupts g)"
    using update_timer_loop_off[OF o, of 0 "unat c"] a
    by (simp_all add: update_timer_cycles_def)
next
  assume a: "on (Emulator.timer e) \<and> \<not> tima_overflow (Emulator.timer e) \<and>
    TIMA (Emulator.timer e) = 0xff \<and>
    ((div_counter (Emulator.timer e) XOR (div_counter (Emulator.timer e) + 4)) AND
     NOT (div_counter (Emulator.timer e) + 4)) AND
    s_tima_mask (clock_select (Emulator.timer e)) \<noteq> 0"
  obtain b where b: "b < 16" "s_tima_mask (clock_select (Emulator.timer e)) = push_bit b 1"
    using s_tima_mask_pow by blast
  have bits: "bit (div_counter (Emulator.timer e)) b"
    "\<not> bit (div_counter (Emulator.timer e) + 4) b"
    using a unfolding b(2) falling_edge_bit[OF b(1)] by simp_all
  define e1 where "e1 = e\<lparr>Emulator.timer := (Emulator.timer e)
      \<lparr>TIMA := 0, tima_overflow := True,
        div_counter := div_counter (Emulator.timer e) + 4\<rparr>\<rparr>"
  define e2 where "e2 = e\<lparr>Emulator.timer := (Emulator.timer e)
      \<lparr>TIMA := TMA (Emulator.timer e), tima_overflow := False,
        div_counter := div_counter (Emulator.timer e) + 4 + 4\<rparr>,
      interrupts := (interrupts e)\<lparr>IF := IF (interrupts e) OR INTERRUPT_TIMER_MASK\<rparr>\<rparr>"
  have s1: "update_timer_step e = e1"
    using a by (simp add: update_timer_step_def write_div_counter_def increment_tima_def
        Let_def e1_def)
  have ne: "\<not> (((div_counter (Emulator.timer e) + 4) XOR (div_counter (Emulator.timer e) + 4 + 4)) AND
          NOT (div_counter (Emulator.timer e) + 4 + 4)) AND push_bit b 1 \<noteq> 0"
    unfolding falling_edge_bit[OF b(1)] using bits by simp
  have s2: "update_timer_step e1 = e2"
    using a ne by (simp add: update_timer_step_def write_div_counter_def
        Let_def e1_def e2_def raise_IF_def b(2))
  have r1: "read_io e1 0x05 = 0" by (simp add: read_io_def e1_def)
  have r2: "read_io e2 0x05 = TMA (Emulator.timer e)" by (simp add: read_io_def e2_def)
  have u4: "update_timer_cycles e 4 = e1" by (simp add: update_timer_4 s1)
  have u8: "update_timer_cycles e 8 = e2" by (simp add: update_timer_8 s1 s2)
  have u44: "update_timer_cycles e1 4 = e2" by (simp add: update_timer_4 s2)
  show "TIMA (Emulator.timer (update_timer_cycles e 4)) = 0"
    "read_io (update_timer_cycles e 4) 0x05 = 0"
    "IF (interrupts (update_timer_cycles e 4)) = IF (interrupts e)"
    "on (Emulator.timer (update_timer_cycles e 4))"
    "update_timer_cycles (update_timer_cycles e 4) 4 = update_timer_cycles e 8"
    "TIMA (Emulator.timer (update_timer_cycles e 8)) = TMA (Emulator.timer e)"
    "read_io (update_timer_cycles e 8) 0x05 = TMA (Emulator.timer e)"
    "IF (interrupts (update_timer_cycles e 8)) = IF (interrupts e) OR INTERRUPT_TIMER_MASK"
    unfolding u4 u8 u44 r1 r2 using a by (simp_all add: e1_def e2_def)
qed

theorem tima_overflow_reload_delay_witness:
  "(TIMA (Emulator.timer timer_overflow_state) = 0xff \<and>
      TIMA (Emulator.timer (increment_tima timer_overflow_state)) = 0 \<and>
      read_io (increment_tima timer_overflow_state) 0x05 = 0 \<and>
      tima_overflow (Emulator.timer (increment_tima timer_overflow_state)) \<and>
      interrupts (increment_tima timer_overflow_state) = interrupts timer_overflow_state) \<and>
   (tima_overflow (Emulator.timer timer_overflow_state_1) \<and>
    on (Emulator.timer timer_overflow_state_1) \<and>
      IF (interrupts (update_timer_cycles timer_overflow_state_1 4)) = 0x04 \<and>
      TIMA (Emulator.timer (update_timer_cycles timer_overflow_state_1 4)) = 0x42) \<and>
   (tima_overflow (Emulator.timer timer_stopped_state) \<and>
    \<not> on (Emulator.timer timer_stopped_state) \<and>
      TIMA (Emulator.timer (update_timer_cycles timer_stopped_state 252)) = 0 \<and>
      tima_overflow (Emulator.timer (update_timer_cycles timer_stopped_state 252)) \<and>
      IF (interrupts (update_timer_cycles timer_stopped_state 252)) = 0) \<and>
   (on (Emulator.timer timer_overflow_state) \<and>
    \<not> tima_overflow (Emulator.timer timer_overflow_state) \<and>
    ((div_counter (Emulator.timer timer_overflow_state) XOR
      (div_counter (Emulator.timer timer_overflow_state) + 4)) AND
     NOT (div_counter (Emulator.timer timer_overflow_state) + 4)) AND
    s_tima_mask (clock_select (Emulator.timer timer_overflow_state)) \<noteq> 0 \<and>
      TIMA (Emulator.timer (update_timer_cycles timer_overflow_state 4)) = 0 \<and>
      read_io (update_timer_cycles timer_overflow_state 4) 0x05 = 0 \<and>
      IF (interrupts (update_timer_cycles timer_overflow_state 4)) = 0 \<and>
      TIMA (Emulator.timer (update_timer_cycles timer_overflow_state 8)) = 0x42 \<and>
      read_io (update_timer_cycles timer_overflow_state 8) 0x05 = 0x42 \<and>
      IF (interrupts (update_timer_cycles timer_overflow_state 8)) = 0x04)"
  using tima_overflow_reload_delay[of timer_overflow_state timer_overflow_state_1
      timer_stopped_state 252 timer_overflow_state]
  by (simp add: timer_overflow_state_def timer_overflow_state_1_def timer_stopped_state_def
      zero_emulator_def s_tima_mask_def INTERRUPT_TIMER_MASK_def)

subsection \<open>EI followed by DI\<close>

text \<open>C8. \<^verbatim>\<open>IME\<close> is clear, no \<^verbatim>\<open>EI\<close> is pending and the CPU is not halted; it executes \<^verbatim>\<open>EI\<close>
  (0xfb) and then \<^verbatim>\<open>DI\<close> (0xf3), whatever \<^verbatim>\<open>IE\<close> and \<^verbatim>\<open>IF\<close> are. Then \<^verbatim>\<open>IME\<close> is still
  clear after \<^verbatim>\<open>EI\<close>, the interrupt check between the two instructions
  (\<open>handle_interrupts\<close>) changes nothing, \<^verbatim>\<open>DI\<close> leaves \<^verbatim>\<open>IME\<close> and the pending \<^verbatim>\<open>EI\<close>
  clear, and the interrupt check after \<^verbatim>\<open>DI\<close> changes nothing either.\<close>

theorem ei_then_di_no_dispatch:
  assumes "\<not> IME (interrupts e)" "\<not> enable (interrupts e)" "\<not> halt (interrupts e)"
    and "read_u8 e (PC (reg e)) = Some 0xfb" "execute_instruction e = Next e1"
    and "read_u8 e1 (PC (reg e1)) = Some 0xf3" "execute_instruction e1 = Next e2"
  shows "\<not> IME (interrupts e1) \<and> handle_interrupts e1 = Some e1 \<and>
         \<not> IME (interrupts e2) \<and> \<not> enable (interrupts e2) \<and>
         handle_interrupts e2 = Some e2 \<and>
         step_emulator e = Next e1 \<and> step_emulator e1 = Next e2"
proof -
  have ne: "(0xfb::u8) \<noteq> 0xcb" "(0xf3::u8) \<noteq> 0xcb" by simp_all
  obtain eu ex pc where
    u: "same_cpu (apply_halt_bug (apply_pending_enable e)) eu"
    and x: "execute_opcode 0xfb eu (PC (reg (apply_halt_bug (apply_pending_enable e))) +
                           ucast (s_opcode_bytes ! unat (0xfb::u8))) = Next (ex, pc)"
    and e1: "e1 = set_reg ex (\<lambda>r. r\<lparr>PC := pc\<rparr>)"
    using execute_instruction_NextE[OF assms(5) assms(3) assms(4) ne(1)] by blast
  have ex: "ex = set_intr eu (\<lambda>i. i\<lparr>enable := True\<rparr>)"
    using x by (simp add: execute_opcode_def)
  have i1: "\<not> IME (interrupts e1)" "\<not> halt (interrupts e1)"
    using u assms(1,2,3) by (simp_all add: e1 ex same_cpu_def pre_simps set_reg_def set_intr_def)
  have h1: "handle_interrupts e1 = Some e1"
    using i1 by (simp add: handle_interrupts_def)
  obtain eu2 ex2 pc2 where
    u2: "same_cpu (apply_halt_bug (apply_pending_enable e1)) eu2"
    and x2: "execute_opcode 0xf3 eu2 (PC (reg (apply_halt_bug (apply_pending_enable e1))) +
                           ucast (s_opcode_bytes ! unat (0xf3::u8))) = Next (ex2, pc2)"
    and e2: "e2 = set_reg ex2 (\<lambda>r. r\<lparr>PC := pc2\<rparr>)"
    using execute_instruction_NextE[OF assms(7) i1(2) assms(6) ne(2)] by blast
  have ex2: "ex2 = set_intr eu2 (\<lambda>i. i\<lparr>IME := False, enable := False\<rparr>)"
    using x2 by (simp add: execute_opcode_def)
  have i2: "\<not> IME (interrupts e2)" "\<not> halt (interrupts e2)" "\<not> enable (interrupts e2)"
    using u2 i1 by (simp_all add: e2 ex2 same_cpu_def pre_simps set_reg_def set_intr_def)
  have h2: "handle_interrupts e2 = Some e2"
    using i2 by (simp add: handle_interrupts_def)
  show ?thesis
    using i1 i2 h1 h2 assms(5,7) by (simp add: step_emulator_def exec_of_def)
qed

theorem ei_then_di_no_dispatch_witness:
  "\<not> IME (interrupts ei_di_state) \<and> \<not> enable (interrupts ei_di_state) \<and>
   \<not> halt (interrupts ei_di_state) \<and>
   read_u8 ei_di_state (PC (reg ei_di_state)) = Some 0xfb \<and>
   execute_instruction ei_di_state = Next ei_di_state_1 \<and>
   read_u8 ei_di_state_1 (PC (reg ei_di_state_1)) = Some 0xf3 \<and>
   execute_instruction ei_di_state_1 = Next ei_di_state_2 \<and>
   IF (interrupts ei_di_state_1) AND IE (interrupts ei_di_state_1) \<noteq> 0 \<and>
   \<not> IME (interrupts ei_di_state_1) \<and> handle_interrupts ei_di_state_1 = Some ei_di_state_1 \<and>
   \<not> IME (interrupts ei_di_state_2) \<and> \<not> enable (interrupts ei_di_state_2) \<and>
   handle_interrupts ei_di_state_2 = Some ei_di_state_2 \<and>
   step_emulator ei_di_state = Next ei_di_state_1 \<and>
   step_emulator ei_di_state_1 = Next ei_di_state_2"
  using ei_then_di_no_dispatch[of ei_di_state ei_di_state_1 ei_di_state_2] ei_di_1 ei_di_2
  by (simp add: ei_di_state_1_def ei_di_state_def ex_defs rom_read)

subsection \<open>HALT with interrupts disabled\<close>







end
